theory Spec2Isabelle
  imports Complex_Main
begin

section \<open>Numbers and library functions\<close>

text \<open>
  Python floats are modelled as real numbers: every arithmetic operation is exact, and
  rounding, infinities and NaN are outside the model. The library functions the code calls
  are the mathematical functions they approximate.
\<close>

text \<open>\<^verbatim>\<open>a % m\<close> on numbers: the remainder takes the sign of the divisor.\<close>

definition pymod :: "real \<Rightarrow> real \<Rightarrow> real" where
  "pymod a m = a - m * of_int \<lfloor>a / m\<rfloor>"

text \<open>\<^verbatim>\<open>math.atan2(y, x)\<close>: the angle of the point (x, y), in the interval (-pi, pi].\<close>

definition atan2 :: "real \<Rightarrow> real \<Rightarrow> real" where
  "atan2 y x =
     (if 0 < x then arctan (y / x)
      else if x < 0 then (if 0 \<le> y then arctan (y / x) + pi else arctan (y / x) - pi)
      else if 0 < y then pi / 2
      else if y < 0 then - (pi / 2)
      else 0)"

text \<open>\<^verbatim>\<open>math.degrees(a)\<close>.\<close>

definition degrees :: "real \<Rightarrow> real" where
  "degrees a = a * 180 / pi"

text \<open>\<^verbatim>\<open>int(x)\<close> on a float: truncation towards zero.\<close>

definition py_int :: "real \<Rightarrow> int" where
  "py_int x = (if 0 \<le> x then \<lfloor>x\<rfloor> else \<lceil>x\<rceil>)"

datatype py_error = KeyError | ZeroDivisionError

section \<open>angle\_calculator.py\<close>

record CalibrationPoint =
  x :: real
  y :: real
  "value" :: real

definition calculate_angle_to_point :: "real \<Rightarrow> real \<Rightarrow> real \<Rightarrow> real \<Rightarrow> real" where
  "calculate_angle_to_point gauge_pivot_x gauge_pivot_y point_x point_y =
     (let dy = point_y - gauge_pivot_y;
          dx = point_x - gauge_pivot_x;
          angle = atan2 dy dx;
          angle_degrees = degrees angle
      in if angle_degrees < 0 then angle_degrees + 360 else angle_degrees)"

record AngleCalculator =
  gauge_pivot_x :: real
  gauge_pivot_y :: real
  calibration_points :: "CalibrationPoint list"

text \<open>The constructor: the pivot as given and no calibration point.\<close>

definition AngleCalculator_init :: "real \<Rightarrow> real \<Rightarrow> AngleCalculator" where
  "AngleCalculator_init px py =
     \<lparr>gauge_pivot_x = px, gauge_pivot_y = py, calibration_points = []\<rparr>"

text \<open>
  \<^verbatim>\<open>add_point\<close> appends and sorts by value; Python's sort is stable, as \<open>sort_key\<close> is.
\<close>

definition add_point :: "real \<Rightarrow> real \<Rightarrow> real \<Rightarrow> AngleCalculator \<Rightarrow> AngleCalculator" where
  "add_point px py v calc =
     calc\<lparr>calibration_points :=
       sort_key value (calibration_points calc @ [\<lparr>x = px, y = py, value = v\<rparr>])\<rparr>"

text \<open>
  A point of the persisted configuration is a dict; \<^verbatim>\<open>p['x']\<close> raises KeyError on a
  missing key, \<^verbatim>\<open>p.get('x', 0)\<close> gives the default.
\<close>

type_synonym point_dict = "string \<rightharpoonup> real"

definition dict_get :: "point_dict \<Rightarrow> string \<Rightarrow> real \<Rightarrow> real" where
  "dict_get p k d = (case p k of None \<Rightarrow> d | Some v \<Rightarrow> v)"

text \<open>
  \<^verbatim>\<open>points_from_list\<close> empties the store and adds the points one by one. A KeyError
  leaves the loop with the points added so far in the store: the result is the calculator
  and the exception raised, if any.
\<close>

fun points_from_list_loop ::
  "point_dict list \<Rightarrow> AngleCalculator \<Rightarrow> AngleCalculator \<times> py_error option" where
  "points_from_list_loop [] calc = (calc, None)"
| "points_from_list_loop (p # ps) calc =
     (case (p ''x'', p ''y'', p ''value'') of
        (Some px, Some py, Some v) \<Rightarrow> points_from_list_loop ps (add_point px py v calc)
      | _ \<Rightarrow> (calc, Some KeyError))"

definition points_from_list ::
  "point_dict list \<Rightarrow> AngleCalculator \<Rightarrow> AngleCalculator \<times> py_error option" where
  "points_from_list points calc = points_from_list_loop points (calc\<lparr>calibration_points := []\<rparr>)"

text \<open>
  The two while loops of the unwrap step, for one index: \<open>a\<close> is \<^verbatim>\<open>angles[i]\<close> and
  \<open>prev\<close> is \<^verbatim>\<open>angles[i - 1]\<close>, already unwrapped. A loop that does not exit has
  the value \<open>None\<close>.
\<close>

partial_function (option) unwrap_down :: "real \<Rightarrow> real \<Rightarrow> real option" where
  "unwrap_down a prev = (if a - prev > 180 then unwrap_down (a - 360) prev else Some a)"

partial_function (option) unwrap_up :: "real \<Rightarrow> real \<Rightarrow> real option" where
  "unwrap_up a prev = (if a - prev < - 180 then unwrap_up (a + 360) prev else Some a)"

text \<open>The body of the for loop over \<^verbatim>\<open>range(1, len(angles))\<close>, from index i on.\<close>

fun unwrap_from :: "real \<Rightarrow> real list \<Rightarrow> real list option" where
  "unwrap_from prev [] = Some []"
| "unwrap_from prev (a # as) =
     (case unwrap_down a prev of None \<Rightarrow> None | Some a1 \<Rightarrow>
       (case unwrap_up a1 prev of None \<Rightarrow> None | Some a2 \<Rightarrow>
         (case unwrap_from a2 as of None \<Rightarrow> None | Some rest \<Rightarrow> Some (a2 # rest))))"

definition unwrap_angles :: "real list \<Rightarrow> real list option" where
  "unwrap_angles angles =
     (case angles of [] \<Rightarrow> Some [] | a # as \<Rightarrow> map_option (Cons a) (unwrap_from a as))"

text \<open>
  The search for the bracketing points: the for loop over \<^verbatim>\<open>range(len(points) - 1)\<close>
  walks the points and the unwrapped angles in step. \<open>None\<close> is the loop ending without
  a return.
\<close>

fun find_bracket :: "CalibrationPoint list \<Rightarrow> real list \<Rightarrow> real \<Rightarrow> real option" where
  "find_bracket (p1 # p2 # ps) (a1 # a2 # as) v =
     (if value p1 \<le> v \<and> v \<le> value p2 then
        (if value p2 = value p1 then Some (pymod a1 360)
         else let t = (v - value p1) / (value p2 - value p1);
                  interp_angle = a1 + t * (a2 - a1)
              in Some (pymod interp_angle 360))
      else find_bracket (p2 # ps) (a2 # as) v)"
| "find_bracket _ _ v = None"

text \<open>The angles before the unwrap step: the bearing of each point from the pivot.\<close>

definition point_angles :: "AngleCalculator \<Rightarrow> real list" where
  "point_angles calc =
     map (\<lambda>p. calculate_angle_to_point (gauge_pivot_x calc) (gauge_pivot_y calc) (x p) (y p))
       (calibration_points calc)"

definition value_to_angle :: "AngleCalculator \<Rightarrow> real \<Rightarrow> real option" where
  "value_to_angle calc v =
     (if calibration_points calc = [] then Some 0
      else
        let points = calibration_points calc in
        case unwrap_angles (point_angles calc) of None \<Rightarrow> None | Some angles \<Rightarrow>
          if v \<le> value (hd points) then Some (pymod (hd angles) 360)
          else if v \<ge> value (last points) then Some (pymod (last angles) 360)
          else (case find_bracket points angles v of
                  Some r \<Rightarrow> Some r
                | None \<Rightarrow> Some (pymod (last angles) 360)))"


section \<open>calibration\_utils.py\<close>

text \<open>
  The second CalibrationPoint class pairs a value with an angle; its fields are
  \<^verbatim>\<open>value\<close> and \<^verbatim>\<open>angle\<close>. A NeedleAngleCalculator holds nothing but its list of
  points.
\<close>

record AnglePoint =
  point_value :: real
  point_angle :: real

definition validate_points :: "AnglePoint list \<Rightarrow> AnglePoint list" where
  "validate_points points =
     (if points \<noteq> [] then sort_key point_value points
      else points)"

definition NeedleAngleCalculator_init :: "AnglePoint list option \<Rightarrow> AnglePoint list" where
  "NeedleAngleCalculator_init points =
     validate_points (case points of None \<Rightarrow> [] | Some ps \<Rightarrow> ps)"

definition needle_add_point :: "real \<Rightarrow> real \<Rightarrow> AnglePoint list \<Rightarrow> AnglePoint list" where
  "needle_add_point v a points =
     validate_points (points @ [\<lparr>point_value = v, point_angle = a\<rparr>])"

definition set_points :: "(real \<times> real) list \<Rightarrow> AnglePoint list" where
  "set_points tuples =
     validate_points (map (\<lambda>(v, a). \<lparr>point_value = v, point_angle = a\<rparr>) tuples)"

text \<open>
  The interpolation loop. The division by \<^verbatim>\<open>value_range\<close> is not guarded in the
  source and raises ZeroDivisionError at zero.
\<close>

fun needle_find_bracket :: "AnglePoint list \<Rightarrow> real \<Rightarrow> (py_error + real) option" where
  "needle_find_bracket (p1 # p2 # ps) v =
     (if point_value p1 \<le> v \<and> v \<le> point_value p2 then
        (let value_range = point_value p2 - point_value p1;
             angle_range = point_angle p2 - point_angle p1;
             angle_range = (if angle_range > 180 then angle_range - 360
                            else if angle_range < - 180 then angle_range + 360
                            else angle_range)
         in if value_range = 0 then Some (Inl ZeroDivisionError)
            else
              (let fraction = (v - point_value p1) / value_range;
                   a = point_angle p1 + angle_range * fraction;
                   a = pymod a 360;
                   a = (if a < 0 then a + 360 else a)
               in Some (Inr a)))
      else needle_find_bracket (p2 # ps) v)"
| "needle_find_bracket _ v = None"

definition needle_value_to_angle :: "AnglePoint list \<Rightarrow> real \<Rightarrow> py_error + real" where
  "needle_value_to_angle points v =
     (if points = [] then Inr 0
      else if v \<le> point_value (hd points)
        then Inr (point_angle (hd points))
      else if v \<ge> point_value (last points)
        then Inr (point_angle (last points))
      else (case needle_find_bracket points v of
              Some r \<Rightarrow> r
            | None \<Rightarrow> Inr (point_angle (hd points))))"

definition tachometer_calibration :: "AnglePoint list" where
  "tachometer_calibration = set_points [(0, 270), (5000, 135), (10000, 0)]"

definition speedometer_calibration :: "AnglePoint list" where
  "speedometer_calibration = set_points [(0, 240), (160, 90), (320, - 60)]"

definition fuel_gauge_calibration :: "AnglePoint list" where
  "fuel_gauge_calibration = set_points [(0, 180), (100, 90)]"

definition water_temp_calibration :: "AnglePoint list" where
  "water_temp_calibration = set_points [(50, 180), (90, 90), (130, 0)]"


section \<open>image\_gauge.py\<close>

text \<open>
  What the code reads of the Qt objects: of a pixmap whether it is null and its size, of a
  valid SVG renderer its default size. A needle calibration of the configuration file is a
  dict of numbers together with its list of calibration points, when it has one.
\<close>

datatype QPixmap = QPixmap (isNull: bool) (pixmap_width: int) (pixmap_height: int)

datatype QSvgRenderer = QSvgRenderer (default_width: int) (default_height: int)

record needle_cal =
  cal_numbers :: "string \<rightharpoonup> real"
  cal_points :: "point_dict list option"

record ImageBasedGauge =
  needle_pixmap :: "QPixmap option"
  needle_svg :: "QSvgRenderer option"
  is_svg_needle :: bool
  needle_center_offset :: "real \<times> real"
  needle_pivot :: "real \<times> real"
  angle_calculator :: "AngleCalculator option"
  gauge_bg_width :: "int option"
  gauge_bg_height :: "int option"
  gauge_display_scale :: real
  gauge_pivot_px :: "(real \<times> real) option"
  calibration_points_px :: "point_dict list"
  needle_length_px :: "real option"
  desired_tip_radius_px :: "real option"
  needle_base_angle :: real
  needle_scale :: real
  named_needles :: "string \<rightharpoonup> (string \<rightharpoonup> real)"

text \<open>
  What loading a needle image gives: no file (no path given, or for the water needle a
  missing file), an SVG renderer that is valid or not, or a pixmap, which is null when the
  file could not be read.
\<close>

datatype needle_file = NoFile | SvgFile "QSvgRenderer option" | PixmapFile QPixmap

text \<open>The constructor, from the background pixmap and the needle image as loaded.\<close>

definition ImageBasedGauge_init :: "QPixmap \<Rightarrow> needle_file \<Rightarrow> ImageBasedGauge" where
  "ImageBasedGauge_init bg_pixmap needle_image =
     \<lparr>needle_pixmap = (case needle_image of PixmapFile pm \<Rightarrow> Some pm | _ \<Rightarrow> None),
      needle_svg = (case needle_image of SvgFile (Some svg) \<Rightarrow> Some svg | _ \<Rightarrow> None),
      is_svg_needle = (case needle_image of SvgFile (Some svg) \<Rightarrow> True | _ \<Rightarrow> False),
      needle_center_offset = (0.5, 0.5),
      needle_pivot = (0.5, 1.0),
      angle_calculator = None,
      gauge_bg_width = (if isNull bg_pixmap then None else Some (pixmap_width bg_pixmap)),
      gauge_bg_height = (if isNull bg_pixmap then None else Some (pixmap_height bg_pixmap)),
      gauge_display_scale = 1.0,
      gauge_pivot_px = None,
      calibration_points_px = [],
      needle_length_px = None,
      desired_tip_radius_px = None,
      needle_base_angle = 0.0,
      needle_scale = 1.0,
      named_needles = Map.empty\<rparr>"

text \<open>Truth of a number that may be \<^verbatim>\<open>None\<close>: neither \<^verbatim>\<open>None\<close> nor zero.\<close>

definition truthy :: "'a::zero option \<Rightarrow> bool" where
  "truthy v = (case v of None \<Rightarrow> False | Some n \<Rightarrow> n \<noteq> 0)"

text \<open>
  The needle geometry block of the loaders, written out twice in \<^verbatim>\<open>load_v2_calibration\<close>
  (SVG and PNG): the pivot as a fraction of the needle image, and the length and base angle
  when an end point is given.
\<close>

definition needle_geometry ::
  "real \<Rightarrow> real \<Rightarrow> real \<Rightarrow> real \<Rightarrow> int \<Rightarrow> int \<Rightarrow>
   'a ImageBasedGauge_scheme \<Rightarrow> 'a ImageBasedGauge_scheme" where
  "needle_geometry needle_piv_x needle_piv_y needle_end_x needle_end_y needle_w needle_h g =
     (if needle_w > 0 \<and> needle_h > 0 then
        (let g1 = g\<lparr>needle_pivot := (needle_piv_x / of_int needle_w, needle_piv_y / of_int needle_h)\<rparr>
         in if needle_end_x \<noteq> 0 \<or> needle_end_y \<noteq> 0 then
              (let dx = needle_end_x - needle_piv_x;
                   dy = needle_end_y - needle_piv_y
               in g1\<lparr>needle_length_px := Some (sqrt (dx * dx + dy * dy)),
                      needle_base_angle := pymod (degrees (atan2 dy dx) + 360) 360\<rparr>)
            else g1\<lparr>needle_length_px := None\<rparr>)
      else g)"

text \<open>The distances from the gauge pivot to the calibration points.\<close>

definition point_distances :: "real \<Rightarrow> real \<Rightarrow> point_dict list \<Rightarrow> real list" where
  "point_distances gx gy points =
     map (\<lambda>point.
            let px = dict_get point ''x'' 0;
                py = dict_get point ''y'' 0;
                dx = px - gx;
                dy = py - gy
            in sqrt (dx * dx + dy * dy)) points"

text \<open>
  \<^verbatim>\<open>load_v2_calibration\<close>, block by block as the source's comments divide it. First
  the needle pivot, length and base angle, from the size of the SVG or of the pixmap.
\<close>

definition load_needle_geometry ::
  "needle_cal \<Rightarrow> 'a ImageBasedGauge_scheme \<Rightarrow> 'a ImageBasedGauge_scheme" where
  "load_needle_geometry cal g =
     (let needle_piv_x = dict_get (cal_numbers cal) ''needle_pivot_x'' 0;
          needle_piv_y = dict_get (cal_numbers cal) ''needle_pivot_y'' 0;
          needle_end_x = dict_get (cal_numbers cal) ''needle_end_x'' 0;
          needle_end_y = dict_get (cal_numbers cal) ''needle_end_y'' 0
      in case (is_svg_needle g, needle_svg g) of
           (True, Some svg) \<Rightarrow>
             needle_geometry needle_piv_x needle_piv_y needle_end_x needle_end_y
               (if default_width svg > 0 then default_width svg else 1)
               (if default_height svg > 0 then default_height svg else 1) g
         | _ \<Rightarrow>
            (case needle_pixmap g of
               Some pm \<Rightarrow>
                 if \<not> isNull pm then
                   needle_geometry needle_piv_x needle_piv_y needle_end_x needle_end_y
                     (pixmap_width pm) (pixmap_height pm) g
                 else g
             | None \<Rightarrow> g))"

text \<open>The needle center, as a fraction of the background.\<close>

definition load_center_offset ::
  "real \<Rightarrow> real \<Rightarrow> 'a ImageBasedGauge_scheme \<Rightarrow> 'a ImageBasedGauge_scheme" where
  "load_center_offset gx gy g =
     (case (gauge_bg_width g, gauge_bg_height g) of
        (Some w, Some h) \<Rightarrow>
          if w \<noteq> 0 \<and> h \<noteq> 0
          then g\<lparr>needle_center_offset := (gx / of_int w, gy / of_int h)\<rparr>
          else g
      | _ \<Rightarrow> g)"

text \<open>The desired tip radius, from the calibration points.\<close>

definition load_tip_radius ::
  "real \<Rightarrow> real \<Rightarrow> point_dict list \<Rightarrow> 'a ImageBasedGauge_scheme \<Rightarrow> 'a ImageBasedGauge_scheme" where
  "load_tip_radius gx gy points g =
     (if gauge_pivot_px g \<noteq> None \<and> points \<noteq> [] then
        (let distances = point_distances gx gy points
         in if distances \<noteq> []
            then g\<lparr>desired_tip_radius_px := Some (sum_list distances / real (length distances))\<rparr>
            else g)
      else g)"

text \<open>The needle scale, when the calibration has one.\<close>

definition load_needle_scale ::
  "needle_cal \<Rightarrow> 'a ImageBasedGauge_scheme \<Rightarrow> 'a ImageBasedGauge_scheme" where
  "load_needle_scale cal g =
     (case cal_numbers cal ''needle_scale'' of
        Some s \<Rightarrow> g\<lparr>needle_scale := s\<rparr>
      | None \<Rightarrow> g)"

text \<open>
  The loader. An exception inside its try block makes it return \<^verbatim>\<open>False\<close> with the
  fields assigned so far; in the model the only one is the KeyError of
  \<^verbatim>\<open>points_from_list\<close>.
\<close>

definition load_v2_calibration ::
  "(string \<rightharpoonup> needle_cal) \<Rightarrow> string \<Rightarrow> 'a ImageBasedGauge_scheme \<Rightarrow>
   bool \<times> 'a ImageBasedGauge_scheme" where
  "load_v2_calibration calibration_data needle_id g =
     (case calibration_data needle_id of
        None \<Rightarrow> (False, g)
      | Some cal \<Rightarrow>
         (let gx = dict_get (cal_numbers cal) ''gauge_pivot_x'' 0;
              gy = dict_get (cal_numbers cal) ''gauge_pivot_y'' 0;
              points = (case cal_points cal of None \<Rightarrow> [] | Some ps \<Rightarrow> ps);
              loaded = points_from_list points (AngleCalculator_init gx gy);
              g1 = g\<lparr>angle_calculator := Some (fst loaded)\<rparr>
          in if snd loaded \<noteq> None then (False, g1)
             else
               (True,
                load_needle_scale cal
                  (load_tip_radius gx gy points
                    (load_center_offset gx gy
                      (load_needle_geometry cal
                        (g1\<lparr>calibration_points_px := points,
                            gauge_pivot_px := Some (gx, gy)\<rparr>)))))))"

text \<open>The registry of named needles: each entry is a dict with the keys value and scale.\<close>

definition set_named_needle_value ::
  "string \<Rightarrow> real \<Rightarrow> 'a ImageBasedGauge_scheme \<Rightarrow> 'a ImageBasedGauge_scheme" where
  "set_named_needle_value needle_name v g =
     (case named_needles g needle_name of
        None \<Rightarrow>
          g\<lparr>named_needles := (named_needles g)(needle_name \<mapsto> [''value'' \<mapsto> v, ''scale'' \<mapsto> 1.0])\<rparr>
      | Some needle_data \<Rightarrow>
          g\<lparr>named_needles := (named_needles g)(needle_name \<mapsto> needle_data(''value'' \<mapsto> v))\<rparr>)"

definition set_named_needle_scale ::
  "string \<Rightarrow> real \<Rightarrow> 'a ImageBasedGauge_scheme \<Rightarrow> 'a ImageBasedGauge_scheme" where
  "set_named_needle_scale needle_name scale g =
     (case named_needles g needle_name of
        None \<Rightarrow>
          g\<lparr>named_needles := (named_needles g)(needle_name \<mapsto> [''value'' \<mapsto> 0, ''scale'' \<mapsto> scale])\<rparr>
      | Some needle_data \<Rightarrow>
          g\<lparr>named_needles :=
              (named_needles g)(needle_name \<mapsto> needle_data(''scale'' \<mapsto> max 0.5 (min 2.0 scale)))\<rparr>)"

definition get_named_needle_scale :: "string \<Rightarrow> 'a ImageBasedGauge_scheme \<Rightarrow> py_error + real" where
  "get_named_needle_scale needle_name g =
     (case named_needles g needle_name of
        Some needle_data \<Rightarrow>
          (case needle_data ''scale'' of None \<Rightarrow> Inl KeyError | Some s \<Rightarrow> Inr s)
      | None \<Rightarrow> if needle_name = ''main'' then Inr (needle_scale g) else Inr 1.0)"

definition delete_named_needle ::
  "string \<Rightarrow> 'a ImageBasedGauge_scheme \<Rightarrow> 'a ImageBasedGauge_scheme" where
  "delete_named_needle needle_name g =
     (if needle_name \<in> dom (named_needles g)
      then g\<lparr>named_needles := (named_needles g)(needle_name := None)\<rparr>
      else g)"

text \<open>
  The angle \<^verbatim>\<open>_draw_all_named_needles\<close> computes for one entry of the registry, before it
  draws the needle with the entry's scale.
\<close>

definition named_needle_angle :: "(string \<rightharpoonup> real) \<Rightarrow> real" where
  "named_needle_angle needle_data =
     (let v = dict_get needle_data ''value'' 0;
          angle_fraction = (if v > 0 then (v - 0) / (100 - 0) else 0)
      in 270 - 180 * angle_fraction)"


text \<open>\<^verbatim>\<open>a / b\<close> raises ZeroDivisionError when b is zero.\<close>

definition py_truediv :: "real \<Rightarrow> real \<Rightarrow> py_error + real" where
  "py_truediv a b = (if b = 0 then Inl ZeroDivisionError else Inr (a / b))"

text \<open>
  What the drawing functions ask of Qt: a pixmap scaled to a width and height, a pixmap
  scaled to a height, or the rectangle an SVG is rendered into. \<open>None\<close> is a return
  without drawing. The painter calls that follow are outside the model.
\<close>

datatype needle_scaling = Scaled int int | ScaledToHeight int | SvgRect int int

definition draw_svg_needle ::
  "'a ImageBasedGauge_scheme \<Rightarrow> real \<Rightarrow> py_error + needle_scaling option" where
  "draw_svg_needle g radius =
     (case needle_svg g of
        None \<Rightarrow> Inr None
      | Some svg \<Rightarrow>
         (let fallback = Inr (radius * 0.9 * needle_scale g);
              desired_length =
                (case (desired_tip_radius_px g, gauge_bg_width g, gauge_bg_height g) of
                   (Some tip, Some w, Some h) \<Rightarrow>
                     if tip \<noteq> 0 \<and> gauge_display_scale g \<noteq> 0 \<and> w \<noteq> 0 \<and> h \<noteq> 0 \<and> tip > 0 then
                       (let calibrated_gauge_radius = of_int (min w h) / 2
                        in case py_truediv tip calibrated_gauge_radius of
                             Inl e \<Rightarrow> Inl e
                           | Inr needle_percentage_of_radius \<Rightarrow>
                               Inr (radius * needle_percentage_of_radius * needle_scale g))
                     else fallback
                 | _ \<Rightarrow> fallback);
              svg_height = (if default_height svg > 0 then default_height svg else 370)
          in case desired_length of
               Inl e \<Rightarrow> Inl e
             | Inr len \<Rightarrow>
                (case py_truediv len (of_int svg_height) of
                   Inl e \<Rightarrow> Inl e
                 | Inr scale \<Rightarrow>
                     Inr (Some (SvgRect (py_int (of_int (default_width svg) * scale))
                                        (py_int (of_int (default_height svg) * scale)))))))"

definition rotate_and_draw_needle ::
  "'a ImageBasedGauge_scheme \<Rightarrow> real \<Rightarrow> py_error + needle_scaling option" where
  "rotate_and_draw_needle g radius =
     (if is_svg_needle g \<and> needle_svg g \<noteq> None then draw_svg_needle g radius
      else
        (case needle_pixmap g of
           None \<Rightarrow> Inr None
         | Some pm \<Rightarrow>
            if isNull pm then Inr None
            else
              (let desired_length =
                     (case desired_tip_radius_px g of
                        Some tip \<Rightarrow>
                          if tip \<noteq> 0 \<and> gauge_display_scale g \<noteq> 0
                          then Some (tip * gauge_display_scale g) else None
                      | None \<Rightarrow> None);
                   fallback =
                     Inr (Some (ScaledToHeight (py_int (radius * 1.5 * needle_scale g))))
               in case (needle_length_px g, desired_length) of
                    (Some len, Some dl) \<Rightarrow>
                      if len \<noteq> 0 \<and> dl \<noteq> 0 then
                        (case py_truediv (dl * needle_scale g) len of
                           Inl e \<Rightarrow> Inl e
                         | Inr scale \<Rightarrow>
                             Inr (Some (Scaled (max 1 (py_int (of_int (pixmap_width pm) * scale)))
                                               (max 1 (py_int (of_int (pixmap_height pm) * scale))))))
                      else fallback
                  | _ \<Rightarrow> fallback)))"

subsection \<open>The fuel gauge with its second needle\<close>

record ImageFuelGauge = ImageBasedGauge +
  fuel_angle_calculator :: "AngleCalculator option"
  water_angle_calculator :: "AngleCalculator option"
  water_needle_pixmap :: "QPixmap option"
  water_needle_svg :: "QSvgRenderer option"
  is_water_svg_needle :: bool
  water_needle_pivot :: "real \<times> real"
  water_needle_center_offset :: "real \<times> real"
  water_needle_length_px :: "real option"
  water_tip_radius_px :: "real option"
  water_base_angle :: real
  water_needle_scale :: real

text \<open>The constructor of the fuel gauge: the base constructor and the water needle's defaults.\<close>

definition ImageFuelGauge_init :: "QPixmap \<Rightarrow> needle_file \<Rightarrow> ImageFuelGauge" where
  "ImageFuelGauge_init bg_pixmap needle_image =
     ImageBasedGauge.extend (ImageBasedGauge_init bg_pixmap needle_image)
       (ImageFuelGauge.fields None None None None False (0.5, 1.0) (0.5, 0.5) None None 0.0 1.0)"

text \<open>
  The water part of \<^verbatim>\<open>load_dual_v2_calibration\<close>, block by block. It has no try block:
  an exception leaves the function. The divisions by the needle image's width and height
  are not guarded.
\<close>

definition water_needle_geometry :: "needle_cal \<Rightarrow> ImageFuelGauge \<Rightarrow> py_error + ImageFuelGauge" where
  "water_needle_geometry water_cal g =
     (let needle_piv_x = dict_get (cal_numbers water_cal) ''needle_pivot_x'' 0;
          needle_piv_y = dict_get (cal_numbers water_cal) ''needle_pivot_y'' 0;
          needle_end_x = dict_get (cal_numbers water_cal) ''needle_end_x'' 0;
          needle_end_y = dict_get (cal_numbers water_cal) ''needle_end_y'' 0;
          needle_size =
            (case (is_water_svg_needle g, water_needle_svg g) of
               (True, Some svg) \<Rightarrow>
                 (if default_width svg > 0 then default_width svg else 1,
                  if default_height svg > 0 then default_height svg else 1)
             | _ \<Rightarrow>
                (case water_needle_pixmap g of
                   Some pm \<Rightarrow> (pixmap_width pm, pixmap_height pm)
                 | None \<Rightarrow> (1, 1)))
      in case py_truediv needle_piv_x (of_int (fst needle_size)) of
           Inl e \<Rightarrow> Inl e
         | Inr pivot_x \<Rightarrow>
            (case py_truediv needle_piv_y (of_int (snd needle_size)) of
               Inl e \<Rightarrow> Inl e
             | Inr pivot_y \<Rightarrow>
                (let g1 = g\<lparr>water_needle_pivot := (pivot_x, pivot_y)\<rparr>
                 in if needle_end_x \<noteq> 0 \<or> needle_end_y \<noteq> 0 then
                      (let dx = needle_end_x - needle_piv_x;
                           dy = needle_end_y - needle_piv_y
                       in Inr (g1\<lparr>water_needle_length_px := Some (sqrt (dx * dx + dy * dy)),
                                  water_base_angle := pymod (degrees (atan2 dy dx) + 360) 360\<rparr>))
                    else Inr (g1\<lparr>water_needle_length_px := None\<rparr>))))"

definition water_center_offset :: "real \<Rightarrow> real \<Rightarrow> ImageFuelGauge \<Rightarrow> ImageFuelGauge" where
  "water_center_offset gx gy g =
     (case (gauge_bg_width g, gauge_bg_height g) of
        (Some w, Some h) \<Rightarrow>
          if w \<noteq> 0 \<and> h \<noteq> 0
          then g\<lparr>water_needle_center_offset := (gx / of_int w, gy / of_int h)\<rparr>
          else g
      | _ \<Rightarrow> g)"

definition water_tip_radius :: "real \<Rightarrow> real \<Rightarrow> point_dict list \<Rightarrow> ImageFuelGauge \<Rightarrow> ImageFuelGauge" where
  "water_tip_radius gx gy points g =
     (if points \<noteq> [] then
        (let distances = point_distances gx gy points
         in if distances \<noteq> []
            then g\<lparr>water_tip_radius_px := Some (sum_list distances / real (length distances))\<rparr>
            else g)
      else g)"

definition load_water_image :: "needle_file \<Rightarrow> ImageFuelGauge \<Rightarrow> ImageFuelGauge" where
  "load_water_image water_file g =
     (case water_file of
        NoFile \<Rightarrow> g
      | SvgFile (Some svg) \<Rightarrow> g\<lparr>water_needle_svg := Some svg, is_water_svg_needle := True\<rparr>
      | SvgFile None \<Rightarrow> g\<lparr>water_needle_svg := None\<rparr>
      | PixmapFile pm \<Rightarrow> g\<lparr>water_needle_pixmap := Some pm\<rparr>)"

definition load_water_calibration ::
  "needle_cal \<Rightarrow> needle_file \<Rightarrow> ImageFuelGauge \<Rightarrow> py_error + ImageFuelGauge" where
  "load_water_calibration water_cal water_file g =
     (let gx = dict_get (cal_numbers water_cal) ''gauge_pivot_x'' 0;
          gy = dict_get (cal_numbers water_cal) ''gauge_pivot_y'' 0;
          points = (case cal_points water_cal of None \<Rightarrow> [] | Some ps \<Rightarrow> ps);
          loaded = points_from_list points (AngleCalculator_init gx gy)
      in case snd loaded of
           Some e \<Rightarrow> Inl e
         | None \<Rightarrow>
            (let g1 = load_water_image water_file (g\<lparr>water_angle_calculator := Some (fst loaded)\<rparr>);
                 g2 = g1\<lparr>water_needle_scale := dict_get (cal_numbers water_cal) ''needle_scale'' 1.0\<rparr>
             in case water_needle_geometry water_cal g2 of
                  Inl e \<Rightarrow> Inl e
                | Inr g3 \<Rightarrow> Inr (water_tip_radius gx gy points (water_center_offset gx gy g3))))"

definition load_dual_v2_calibration ::
  "(string \<rightharpoonup> needle_cal) \<Rightarrow> needle_file \<Rightarrow> ImageFuelGauge \<Rightarrow> py_error + ImageFuelGauge" where
  "load_dual_v2_calibration calibration_data water_file g =
     (let g1 = (if ''fuel'' \<in> dom calibration_data then
                  (let g' = snd (load_v2_calibration calibration_data ''fuel'' g)
                   in g'\<lparr>fuel_angle_calculator := angle_calculator g'\<rparr>)
                else g)
      in case calibration_data ''water'' of
           None \<Rightarrow> Inr g1
         | Some water_cal \<Rightarrow> load_water_calibration water_cal water_file g1)"


section \<open>Notation and example inputs\<close>

abbreviation bearing :: "AngleCalculator \<Rightarrow> CalibrationPoint \<Rightarrow> real" where
  "bearing calc p \<equiv>
     calculate_angle_to_point (gauge_pivot_x calc) (gauge_pivot_y calc) (x p) (y p)"

text \<open>Two points on opposite sides of the pivot: bearings 180 and 0.\<close>

definition seam_calc :: AngleCalculator where
  "seam_calc = add_point 1 0 1 (add_point (- 1) 0 0 (AngleCalculator_init 0 0))"


text \<open>The same two positions, both with the value 7.\<close>

definition flat_calc :: AngleCalculator where
  "flat_calc = add_point 0 1 7 (add_point 1 0 7 (AngleCalculator_init 0 0))"

text \<open>A single point above the pivot.\<close>

definition single_calc :: AngleCalculator where
  "single_calc = add_point 0 (- 1) 0 (AngleCalculator_init 0 0)"

text \<open>A gauge with a 1080 by 1080 background and a 40 by 400 PNG needle.\<close>

definition png_gauge :: ImageBasedGauge where
  "png_gauge = ImageBasedGauge_init (QPixmap False 1080 1080) (PixmapFile (QPixmap False 40 400))"

text \<open>The same gauge with an SVG needle.\<close>

definition svg_gauge :: ImageBasedGauge where
  "svg_gauge = ImageBasedGauge_init (QPixmap False 1080 1080) (SvgFile (Some (QSvgRenderer 40 400)))"


text \<open>
  A needle calibration with the gauge pivot at the origin and two calibration points, at
  distance 3 and at distance 5 from it, and a configuration holding it for the needles
  main, fuel and water.
\<close>

definition two_point_cal :: needle_cal where
  "two_point_cal =
     \<lparr>cal_numbers = [''gauge_pivot_x'' \<mapsto> 0, ''gauge_pivot_y'' \<mapsto> 0],
      cal_points = Some [[''x'' \<mapsto> 3, ''y'' \<mapsto> 0, ''value'' \<mapsto> 0],
                         [''x'' \<mapsto> 0, ''y'' \<mapsto> 5, ''value'' \<mapsto> 100]]\<rparr>"

definition two_point_config :: "string \<rightharpoonup> needle_cal" where
  "two_point_config = [''main'' \<mapsto> two_point_cal, ''fuel'' \<mapsto> two_point_cal, ''water'' \<mapsto> two_point_cal]"

text \<open>A fuel gauge with a 1080 by 1080 background and a 40 by 400 PNG needle.\<close>

definition fuel_gauge :: ImageFuelGauge where
  "fuel_gauge = ImageFuelGauge_init (QPixmap False 1080 1080) (PixmapFile (QPixmap False 40 400))"

section \<open>Auxiliary facts\<close>


lemma pymod_range: "0 \<le> pymod a 360 \<and> pymod a 360 < 360"
proof -
  have "of_int \<lfloor>a / 360\<rfloor> \<le> a / 360" "a / 360 < of_int \<lfloor>a / 360\<rfloor> + 1" by linarith+
  then show ?thesis unfolding pymod_def by (simp add: field_simps)
qed

lemma pymod_shift: "pymod (a + 360 * of_int k) 360 = pymod a 360"
proof -
  have "(a + 360 * of_int k) / 360 = a / 360 + of_int k" by simp
  then have "\<lfloor>(a + 360 * of_int k) / 360\<rfloor> = \<lfloor>a / 360\<rfloor> + k" by (simp only: floor_add_int)
  then show ?thesis unfolding pymod_def by (simp add: algebra_simps)
qed

lemma pymod_id: "0 \<le> a \<Longrightarrow> a < 360 \<Longrightarrow> pymod a 360 = a"
proof -
  assume "0 \<le> a" "a < 360"
  then have "\<lfloor>a / 360\<rfloor> = 0" by (simp add: floor_eq_iff)
  then show ?thesis by (simp add: pymod_def)
qed

lemma unwrap_down_returns:
  "\<exists>k::nat. unwrap_down a prev = Some (a - 360 * real k)
     \<and> a - 360 * real k - prev \<le> 180
     \<and> (k = 0 \<or> - 180 < a - 360 * real k - prev)"
proof (induction "nat \<lceil>(a - prev) / 360\<rceil>" arbitrary: a rule: less_induct)
  case less
  show ?case
  proof (cases "a - prev > 180")
    case False
    then have "unwrap_down a prev = Some a" by (subst unwrap_down.simps) simp
    with False show ?thesis by (intro exI[of _ 0]) simp
  next
    case True
    then have pos: "0 < \<lceil>(a - prev) / 360\<rceil>" by (simp add: ceiling_less_iff[symmetric] less_ceiling_iff)
    have "\<lceil>(a - 360 - prev) / 360\<rceil> = \<lceil>(a - prev) / 360\<rceil> - 1"
    proof -
      have "(a - 360 - prev) / 360 = (a - prev) / 360 - 1" by (simp add: field_simps)
      then show ?thesis by (simp only: ceiling_diff_one)
    qed
    with pos have "nat \<lceil>(a - 360 - prev) / 360\<rceil> < nat \<lceil>(a - prev) / 360\<rceil>" by simp
    from less[OF this] obtain k where k: "unwrap_down (a - 360) prev = Some (a - 360 - 360 * real k)"
      "a - 360 - 360 * real k - prev \<le> 180" "k = 0 \<or> - 180 < a - 360 - 360 * real k - prev" by blast
    have "unwrap_down a prev = unwrap_down (a - 360) prev" using True by (subst unwrap_down.simps) simp
    with k True show ?thesis by (intro exI[of _ "Suc k"]) (auto simp: algebra_simps)
  qed
qed



lemma unwrap_up_returns:
  "\<exists>k::nat. unwrap_up a prev = Some (a + 360 * real k)
     \<and> - 180 \<le> a + 360 * real k - prev
     \<and> (k = 0 \<or> a + 360 * real k - prev < 180)"
proof (induction "nat \<lceil>(prev - a) / 360\<rceil>" arbitrary: a rule: less_induct)
  case less
  show ?case
  proof (cases "a - prev < - 180")
    case False
    then have "unwrap_up a prev = Some a" by (subst unwrap_up.simps) simp
    with False show ?thesis by (intro exI[of _ 0]) simp
  next
    case True
    then have pos: "0 < \<lceil>(prev - a) / 360\<rceil>" by (simp add: less_ceiling_iff)
    have "\<lceil>(prev - (a + 360)) / 360\<rceil> = \<lceil>(prev - a) / 360\<rceil> - 1"
    proof -
      have "(prev - (a + 360)) / 360 = (prev - a) / 360 - 1" by (simp add: field_simps)
      then show ?thesis by (simp only: ceiling_diff_one)
    qed
    with pos have "nat \<lceil>(prev - (a + 360)) / 360\<rceil> < nat \<lceil>(prev - a) / 360\<rceil>" by simp
    from less[OF this] obtain k where k: "unwrap_up (a + 360) prev = Some (a + 360 + 360 * real k)"
      "- 180 \<le> a + 360 + 360 * real k - prev" "k = 0 \<or> a + 360 + 360 * real k - prev < 180" by blast
    have "unwrap_up a prev = unwrap_up (a + 360) prev" using True by (subst unwrap_up.simps) simp
    with k True show ?thesis by (intro exI[of _ "Suc k"]) (auto simp: algebra_simps)
  qed
qed

lemma unwrap_step_returns:
  "\<exists>a1 r. unwrap_down a prev = Some a1 \<and> unwrap_up a1 prev = Some r
     \<and> (\<exists>k::int. r = a + 360 * of_int k) \<and> - 180 \<le> r - prev \<and> r - prev \<le> 180"
proof -
  obtain k where k: "unwrap_down a prev = Some (a - 360 * real k)"
    "a - 360 * real k - prev \<le> 180" using unwrap_down_returns by blast
  obtain j where j: "unwrap_up (a - 360 * real k) prev = Some (a - 360 * real k + 360 * real j)"
    "- 180 \<le> a - 360 * real k + 360 * real j - prev"
    "j = 0 \<or> a - 360 * real k + 360 * real j - prev < 180" using unwrap_up_returns by blast
  have "a - 360 * real k + 360 * real j = a + 360 * of_int (int j - int k)" by simp
  moreover have "a - 360 * real k + 360 * real j - prev \<le> 180" using j(3) k(2) by auto
  ultimately show ?thesis using k(1) j(1,2) by blast
qed

lemma unwrap_from_returns:
  "\<exists>us. unwrap_from prev as = Some us \<and> length us = length as
     \<and> (\<forall>i<length as. pymod (us ! i) 360 = pymod (as ! i) 360)
     \<and> (\<forall>i<length us. \<bar>us ! i - (if i = 0 then prev else us ! (i - 1))\<bar> \<le> 180)"
proof (induction as arbitrary: prev)
  case Nil
  show ?case by simp
next
  case (Cons a as)
  obtain a1 r k where s: "unwrap_down a prev = Some a1" "unwrap_up a1 prev = Some r"
    "r = a + 360 * of_int k" "- 180 \<le> r - prev" "r - prev \<le> 180"
    using unwrap_step_returns[of a prev] by blast
  obtain us where us: "unwrap_from r as = Some us" "length us = length as"
     "\<forall>i<length as. pymod (us ! i) 360 = pymod (as ! i) 360"
     "\<forall>i<length us. \<bar>us ! i - (if i = 0 then r else us ! (i - 1))\<bar> \<le> 180"
    using Cons.IH[of r] by blast
  have 1: "unwrap_from prev (a # as) = Some (r # us)" using s(1,2) us(1) by simp
  have 2: "\<forall>i<length (a # as). pymod ((r # us) ! i) 360 = pymod ((a # as) ! i) 360"
    using us(3) s(3) by (auto simp: nth_Cons pymod_shift split: nat.splits)
  have 3: "\<forall>i<length (r # us). \<bar>(r # us) ! i - (if i = 0 then prev else (r # us) ! (i - 1))\<bar> \<le> 180"
  proof (intro allI impI)
    fix i assume i: "i < length (r # us)"
    show "\<bar>(r # us) ! i - (if i = 0 then prev else (r # us) ! (i - 1))\<bar> \<le> 180"
    proof (cases i)
      case 0
      then show ?thesis using s(4,5) by simp
    next
      case (Suc j)
      then have "j < length us" using i by simp
      with us(4) have "\<bar>us ! j - (if j = 0 then r else us ! (j - 1))\<bar> \<le> 180" by blast
      then show ?thesis using Suc by (cases j) simp_all
    qed
  qed
  show ?case using 1 2 3 us(2) by (intro exI[of _ "r # us"]) simp
qed

lemma unwrap_angles_returns:
  "\<exists>us. unwrap_angles as = Some us \<and> length us = length as
     \<and> (\<forall>i<length as. pymod (us ! i) 360 = pymod (as ! i) 360)
     \<and> (\<forall>i. 1 \<le> i \<and> i < length us \<longrightarrow> \<bar>us ! i - us ! (i - 1)\<bar> \<le> 180)
     \<and> (as \<noteq> [] \<longrightarrow> hd us = hd as)"
proof (cases as)
  case Nil
  then show ?thesis by (simp add: unwrap_angles_def)
next
  case (Cons a as')
  obtain us where us: "unwrap_from a as' = Some us" "length us = length as'"
     "\<forall>i<length as'. pymod (us ! i) 360 = pymod (as' ! i) 360"
     "\<forall>i<length us. \<bar>us ! i - (if i = 0 then a else us ! (i - 1))\<bar> \<le> 180"
    using unwrap_from_returns[of a as'] by blast
  have 1: "unwrap_angles as = Some (a # us)" using Cons us(1) by (simp add: unwrap_angles_def)
  have 2: "\<forall>i<length as. pymod ((a # us) ! i) 360 = pymod (as ! i) 360"
    using us(3) Cons by (auto simp: nth_Cons split: nat.splits)
  have 3: "\<forall>i. 1 \<le> i \<and> i < length (a # us) \<longrightarrow> \<bar>(a # us) ! i - (a # us) ! (i - 1)\<bar> \<le> 180"
  proof (intro allI impI)
    fix i assume i: "1 \<le> i \<and> i < length (a # us)"
    then obtain j where j: "i = Suc j" "j < length us" by (cases i) auto
    with us(4) have "\<bar>us ! j - (if j = 0 then a else us ! (j - 1))\<bar> \<le> 180" by blast
    then show "\<bar>(a # us) ! i - (a # us) ! (i - 1)\<bar> \<le> 180" using j by (cases j) simp_all
  qed
  show ?thesis using 1 2 3 us(2) Cons by (intro exI[of _ "a # us"]) simp
qed



lemma atan2_range: "- pi < atan2 b a \<and> atan2 b a \<le> pi"
proof -
  have lb: "- (pi / 2) < arctan (b / a)" and ub: "arctan (b / a) < pi / 2"
    by (rule arctan_lbound, rule arctan_ubound)
  have pp: "0 < pi" by simp
  show ?thesis
  proof (cases "0 < a")
    case True
    have "- pi < arctan (b / a) \<and> arctan (b / a) \<le> pi"
      using lb ub pi_gt_zero by linarith
    with True show ?thesis by (simp only: atan2_def) simp
  next
    case False
    show ?thesis
    proof (cases "a < 0")
      case True
      show ?thesis
      proof (cases "0 \<le> b")
        case True
        with \<open>a < 0\<close> have "b / a \<le> 0" by (simp add: divide_nonneg_neg)
        then have "arctan (b / a) \<le> 0" by (simp add: arctan_le_zero_iff)
        have "- pi < arctan (b / a) + pi \<and> arctan (b / a) + pi \<le> pi"
          using lb \<open>arctan (b / a) \<le> 0\<close> pi_gt_zero by linarith
        with True \<open>a < 0\<close> show ?thesis by (simp only: atan2_def) simp
      next
        case False
        with \<open>a < 0\<close> have "0 < b / a" by (simp add: divide_neg_neg)
        then have "0 < arctan (b / a)" by (simp add: zero_less_arctan_iff)
        have "- pi < arctan (b / a) - pi \<and> arctan (b / a) - pi \<le> pi"
          using ub \<open>0 < arctan (b / a)\<close> pi_gt_zero by linarith
        with False \<open>a < 0\<close> show ?thesis by (simp only: atan2_def) simp
      qed
    next
      case False
      with \<open>\<not> 0 < a\<close> have a0: "a = 0" by simp
      have "atan2 b a = pi / 2 \<or> atan2 b a = - (pi / 2) \<or> atan2 b a = 0"
        by (simp add: atan2_def a0)
      then show ?thesis using pi_gt_zero by (elim disjE) (simp only:, linarith)+
    qed
  qed
qed

lemma degrees_range: "- pi < a \<Longrightarrow> a \<le> pi \<Longrightarrow> - 180 < degrees a \<and> degrees a \<le> 180"
proof -
  assume a: "- pi < a" "a \<le> pi"
  have pp: "0 < pi" by simp
  have "- 180 < a * 180 / pi" using a(1) pp by (simp add: pos_less_divide_eq)
  moreover have "a * 180 / pi \<le> 180" using a(2) pp by (simp add: pos_divide_le_eq)
  ultimately show ?thesis by (simp add: degrees_def)
qed

lemma bearing_range:
  "0 \<le> calculate_angle_to_point gx gy px py \<and> calculate_angle_to_point gx gy px py < 360"
proof -
  have "- 180 < degrees (atan2 (py - gy) (px - gx)) \<and> degrees (atan2 (py - gy) (px - gx)) \<le> 180"
    using atan2_range degrees_range by blast
  then show ?thesis by (auto simp: calculate_angle_to_point_def Let_def)
qed

lemma find_bracket_range: "find_bracket ps as v = Some r \<Longrightarrow> 0 \<le> r \<and> r < 360"
  by (induction ps as v rule: find_bracket.induct)
     (auto simp: pymod_range Let_def split: if_splits)

lemma value_to_angle_range: "\<exists>r. value_to_angle calc v = Some r \<and> 0 \<le> r \<and> r < 360"
proof -
  obtain us where us: "unwrap_angles (point_angles calc) = Some us"
    using unwrap_angles_returns by blast
  show ?thesis
  proof (cases "find_bracket (calibration_points calc) us v")
    case None
    then show ?thesis using us by (simp add: value_to_angle_def Let_def pymod_range)
  next
    case (Some r)
    then show ?thesis using us find_bracket_range[OF Some]
      by (simp add: value_to_angle_def Let_def pymod_range)
  qed
qed



lemma unwrapped_bearing:
  assumes "unwrap_angles (point_angles calc) = Some us"
  shows "length us = length (calibration_points calc)"
    and "i < length us \<Longrightarrow> pymod (us ! i) 360 = bearing calc (calibration_points calc ! i)"
    and "calibration_points calc \<noteq> [] \<Longrightarrow> hd us = bearing calc (hd (calibration_points calc))"
proof -
  obtain us' where u: "unwrap_angles (point_angles calc) = Some us'"
    "length us' = length (point_angles calc)"
    "\<forall>i<length (point_angles calc). pymod (us' ! i) 360 = pymod (point_angles calc ! i) 360"
    "point_angles calc \<noteq> [] \<longrightarrow> hd us' = hd (point_angles calc)"
    using unwrap_angles_returns[of "point_angles calc"] by blast
  with assms have eq: "us' = us" by simp
  show len: "length us = length (calibration_points calc)"
    using u(2) eq by (simp add: point_angles_def)
  show "pymod (us ! i) 360 = bearing calc (calibration_points calc ! i)" if "i < length us"
  proof -
    have "pymod (us ! i) 360 = pymod (point_angles calc ! i) 360"
      using u(3) eq that u(2) by simp
    also have "point_angles calc ! i = bearing calc (calibration_points calc ! i)"
      using that len by (simp add: point_angles_def)
    finally show ?thesis using bearing_range by (simp add: pymod_id)
  qed
  show "hd us = bearing calc (hd (calibration_points calc))" if "calibration_points calc \<noteq> []"
    using u(4) eq that by (simp add: point_angles_def hd_map)
qed


lemma value_to_angle_low:
  assumes "calibration_points calc \<noteq> []" "v \<le> value (hd (calibration_points calc))"
  shows "value_to_angle calc v = Some (bearing calc (hd (calibration_points calc)))"
proof -
  obtain us where us: "unwrap_angles (point_angles calc) = Some us"
    using unwrap_angles_returns by blast
  have "hd us = bearing calc (hd (calibration_points calc))"
    using unwrapped_bearing(3)[OF us assms(1)] .
  then have "pymod (hd us) 360 = bearing calc (hd (calibration_points calc))"
    using bearing_range by (simp add: pymod_id)
  then show ?thesis using us assms by (simp add: value_to_angle_def Let_def)
qed

lemma value_to_angle_high:
  assumes "calibration_points calc \<noteq> []" "value (hd (calibration_points calc)) < v"
    "value (last (calibration_points calc)) \<le> v"
  shows "value_to_angle calc v = Some (bearing calc (last (calibration_points calc)))"
proof -
  obtain us where us: "unwrap_angles (point_angles calc) = Some us"
    using unwrap_angles_returns by blast
  have len: "length us = length (calibration_points calc)" using unwrapped_bearing(1)[OF us] .
  with assms(1) have ne: "us \<noteq> []" by auto
  then have "pymod (last us) 360 = pymod (us ! (length us - 1)) 360" by (simp add: last_conv_nth)
  also have "\<dots> = bearing calc (calibration_points calc ! (length us - 1))"
    using unwrapped_bearing(2)[OF us, of "length us - 1"] ne by simp
  also have "\<dots> = bearing calc (last (calibration_points calc))"
    using assms(1) len by (simp add: last_conv_nth)
  finally show ?thesis using us assms by (simp add: value_to_angle_def Let_def)
qed



subsection \<open>The example inputs evaluated\<close>


lemma seam_calc_points:
  "calibration_points seam_calc = [\<lparr>x = - 1, y = 0, value = 0\<rparr>, \<lparr>x = 1, y = 0, value = 1\<rparr>]"
  "gauge_pivot_x seam_calc = 0" "gauge_pivot_y seam_calc = 0"
  by (simp_all add: seam_calc_def add_point_def AngleCalculator_init_def)

lemma bearing_left: "calculate_angle_to_point 0 0 (- 1) 0 = 180"
  by (simp add: calculate_angle_to_point_def atan2_def degrees_def)

lemma bearing_right: "calculate_angle_to_point 0 0 1 0 = 0"
  by (simp add: calculate_angle_to_point_def atan2_def degrees_def)

lemma bearing_down: "calculate_angle_to_point 0 0 0 1 = 90"
  by (simp add: calculate_angle_to_point_def atan2_def degrees_def)

lemma bearing_up: "calculate_angle_to_point 0 0 0 (- 1) = 270"
  by (simp add: calculate_angle_to_point_def atan2_def degrees_def)

lemma seam_calc_angles: "point_angles seam_calc = [180, 0]"
  by (simp add: point_angles_def seam_calc_points bearing_left bearing_right)

lemma seam_calc_unwrapped: "unwrap_angles (point_angles seam_calc) = Some [180, 0]"
  by (simp add: seam_calc_angles unwrap_angles_def unwrap_down.simps unwrap_up.simps)

lemma speedometer_points:
  "speedometer_calibration =
     [\<lparr>point_value = 0, point_angle = 240\<rparr>, \<lparr>point_value = 160, point_angle = 90\<rparr>,
      \<lparr>point_value = 320, point_angle = - 60\<rparr>]"
  by (simp add: speedometer_calibration_def set_points_def validate_points_def)

lemma needle_find_bracket_inner:
  assumes "sorted (map point_value (p # ps))" "point_value p < v" "v \<le> point_value (last (p # ps))"
  shows "\<exists>r. needle_find_bracket (p # ps) v = Some (Inr r) \<and> 0 \<le> r \<and> r < 360"
  using assms
proof (induction ps arbitrary: p)
  case Nil
  then show ?case by simp
next
  case (Cons q qs)
  show ?case
  proof (cases "v \<le> point_value q")
    case True
    with Cons.prems(2) have "point_value q - point_value p \<noteq> 0" by simp
    with True Cons.prems(2) show ?thesis
      using pymod_range by (simp add: Let_def not_less[symmetric])
  next
    case False
    then have lt: "point_value q < v" by simp
    have srt: "sorted (map point_value (q # qs))" using Cons.prems(1) by simp
    have "v \<le> point_value (last (q # qs))" using Cons.prems(3) by simp
    from Cons.IH[OF srt lt this] show ?thesis using False by simp
  qed
qed

lemma points_from_list_loop_sorted:
  "sorted (map value (calibration_points calc)) \<Longrightarrow>
   sorted (map value (calibration_points (fst (points_from_list_loop ps calc))))"
proof (induction ps arbitrary: calc)
  case Nil
  then show ?case by simp
next
  case (Cons p ps)
  have "sorted (map value (calibration_points (add_point a b c calc)))" for a b c
    by (simp add: add_point_def)
  then show ?case using Cons by (auto split: option.splits)
qed


lemma flat_calc_points:
  "calibration_points flat_calc = [\<lparr>x = 1, y = 0, value = 7\<rparr>, \<lparr>x = 0, y = 1, value = 7\<rparr>]"
  "gauge_pivot_x flat_calc = 0" "gauge_pivot_y flat_calc = 0"
  by (simp_all add: flat_calc_def add_point_def AngleCalculator_init_def)

lemma single_calc_points:
  "calibration_points single_calc = [\<lparr>x = 0, y = - 1, value = 0\<rparr>]"
  "gauge_pivot_x single_calc = 0" "gauge_pivot_y single_calc = 0"
  by (simp_all add: single_calc_def add_point_def AngleCalculator_init_def)

lemma pymod_small: "pymod 0 360 = 0" "pymod 90 360 = 90" "pymod 180 360 = 180"
  "pymod 270 360 = 270" "pymod (- 60) 360 = 300"
  by (simp_all add: pymod_def)


lemma flat_calc_value: "value_to_angle flat_calc 7 = Some 0"
  by (simp add: value_to_angle_def point_angles_def flat_calc_points bearing_right bearing_down
      unwrap_angles_def unwrap_down.simps unwrap_up.simps pymod_small)

lemma png_gauge_named_needles: "named_needles png_gauge = Map.empty"
  by (simp add: png_gauge_def ImageBasedGauge_init_def)

lemma sorted_hd_last:
  assumes "sorted (map f ps)" "p \<in> set ps"
  shows "f (hd ps) \<le> f p \<and> f p \<le> f (last ps)"
proof -
  from assms(2) have ne: "ps \<noteq> []" by auto
  obtain i where i: "i < length ps" "ps ! i = p" using assms(2) by (auto simp: in_set_conv_nth)
  have "map f ps ! 0 \<le> map f ps ! i" using assms(1) i(1) by (intro sorted_nth_mono) auto
  moreover have "map f ps ! i \<le> map f ps ! (length ps - 1)"
    using assms(1) i(1) by (intro sorted_nth_mono) auto
  ultimately show ?thesis using i ne by (simp add: hd_conv_nth last_conv_nth)
qed

lemma needle_geometry_keeps:
  "desired_tip_radius_px (needle_geometry a b c d w h g) = desired_tip_radius_px g"
  "gauge_pivot_px (needle_geometry a b c d w h g) = gauge_pivot_px g"
  by (simp_all add: needle_geometry_def Let_def)

lemma load_needle_geometry_keeps:
  "gauge_pivot_px (load_needle_geometry cal g) = gauge_pivot_px g"
  by (simp add: load_needle_geometry_def Let_def needle_geometry_keeps
      split: prod.splits bool.splits option.splits)

lemma load_center_offset_keeps:
  "gauge_pivot_px (load_center_offset gx gy g) = gauge_pivot_px g"
  by (simp add: load_center_offset_def split: prod.splits option.splits)

lemma load_needle_scale_keeps:
  "desired_tip_radius_px (load_needle_scale cal g) = desired_tip_radius_px g"
  by (simp add: load_needle_scale_def split: option.splits)

lemma point_distances_sum:
  "sum_list (point_distances gx gy points) / real (length (point_distances gx gy points))
     = (\<Sum>point\<leftarrow>points. sqrt ((dict_get point ''x'' 0 - gx)\<^sup>2 + (dict_get point ''y'' 0 - gy)\<^sup>2))
         / real (length points)"
  by (simp add: point_distances_def Let_def power2_eq_square)

lemma load_tip_radius_mean:
  assumes "gauge_pivot_px g \<noteq> None" "points \<noteq> []"
  shows "desired_tip_radius_px (load_tip_radius gx gy points g) =
     Some ((\<Sum>point\<leftarrow>points. sqrt ((dict_get point ''x'' 0 - gx)\<^sup>2 + (dict_get point ''y'' 0 - gy)\<^sup>2))
         / real (length points))"
proof -
  have "point_distances gx gy points \<noteq> []" using assms(2) by (simp add: point_distances_def)
  then show ?thesis using assms
    by (simp add: load_tip_radius_def Let_def point_distances_sum)
qed

lemma water_tip_radius_mean:
  assumes "points \<noteq> []"
  shows "water_tip_radius_px (water_tip_radius gx gy points g) =
     Some ((\<Sum>point\<leftarrow>points. sqrt ((dict_get point ''x'' 0 - gx)\<^sup>2 + (dict_get point ''y'' 0 - gy)\<^sup>2))
         / real (length points))"
proof -
  have "point_distances gx gy points \<noteq> []" using assms by (simp add: point_distances_def)
  then show ?thesis using assms
    by (simp add: water_tip_radius_def Let_def point_distances_sum)
qed

lemma points_from_list_loop_keys:
  "snd (points_from_list_loop ps calc) = None \<Longrightarrow>
   \<forall>p\<in>set ps. p ''x'' \<noteq> None \<and> p ''y'' \<noteq> None \<and> p ''value'' \<noteq> None"
  by (induction ps arbitrary: calc) (auto split: option.splits)

lemma two_point_loaded:
  "points_from_list [[''x'' \<mapsto> 3, ''y'' \<mapsto> 0, ''value'' \<mapsto> 0], [''x'' \<mapsto> 0, ''y'' \<mapsto> 5, ''value'' \<mapsto> 100]]
     (AngleCalculator_init 0 0)
   = (\<lparr>gauge_pivot_x = 0, gauge_pivot_y = 0,
       calibration_points = [\<lparr>x = 3, y = 0, value = 0\<rparr>, \<lparr>x = 0, y = 5, value = 100\<rparr>]\<rparr>, None)"
  by (simp add: points_from_list_def add_point_def AngleCalculator_init_def)

lemma two_point_main_loads: "fst (load_v2_calibration two_point_config ''main'' png_gauge)"
  by (simp add: load_v2_calibration_def two_point_config_def two_point_cal_def dict_get_def
      two_point_loaded Let_def)

lemma two_point_water_loads:
  "\<exists>fg'. load_dual_v2_calibration two_point_config NoFile fuel_gauge = Inr fg'"
  by (simp add: load_dual_v2_calibration_def load_water_calibration_def two_point_config_def
      two_point_cal_def dict_get_def two_point_loaded Let_def load_water_image_def
      water_needle_geometry_def py_truediv_def
      fuel_gauge_def ImageFuelGauge_init_def ImageBasedGauge_init_def
      ImageBasedGauge.extend_def ImageFuelGauge.fields_def
      load_v2_calibration_def load_needle_scale_def load_tip_radius_def load_center_offset_def
      load_needle_geometry_def needle_geometry_def)

lemma rotate_pixmap_fallback:
  assumes "\<not> (is_svg_needle g \<and> needle_svg g \<noteq> None)" "needle_pixmap g = Some pm" "\<not> isNull pm"
    "needle_length_px g = None \<or> needle_length_px g = Some 0"
  shows "rotate_and_draw_needle g radius
           = Inr (Some (ScaledToHeight (py_int (radius * 1.5 * needle_scale g))))"
  using assms
  by (auto simp: rotate_and_draw_needle_def Let_def split: option.splits)

lemma draw_svg_needle_proportion:
  assumes "needle_svg g = Some svg"
  shows "\<exists>c. \<forall>radius. draw_svg_needle g radius
           = Inr (Some (SvgRect (py_int (of_int (default_width svg) * (radius * c)))
                                (py_int (of_int (default_height svg) * (radius * c)))))"
proof -
  define svg_height where "svg_height = (if default_height svg > 0 then default_height svg else 370)"
  have hpos: "(of_int svg_height :: real) \<noteq> 0" by (simp add: svg_height_def)
  define calibrated where "calibrated =
    (case (desired_tip_radius_px g, gauge_bg_width g, gauge_bg_height g) of
       (Some tip, Some w, Some h) \<Rightarrow>
          if tip \<noteq> 0 \<and> gauge_display_scale g \<noteq> 0 \<and> w \<noteq> 0 \<and> h \<noteq> 0 \<and> tip > 0
          then Some (tip / (of_int (min w h) / 2)) else None
     | _ \<Rightarrow> None)"
  define c where "c = (case calibrated of Some pct \<Rightarrow> pct | None \<Rightarrow> 0.9) * needle_scale g / of_int svg_height"
  have "draw_svg_needle g radius
           = Inr (Some (SvgRect (py_int (of_int (default_width svg) * (radius * c)))
                                (py_int (of_int (default_height svg) * (radius * c)))))" for radius
  proof (cases calibrated)
    case None
    then have "draw_svg_needle g radius =
       (case py_truediv (radius * 0.9 * needle_scale g) (of_int svg_height) of
          Inl e \<Rightarrow> Inl e
        | Inr scale \<Rightarrow> Inr (Some (SvgRect (py_int (of_int (default_width svg) * scale))
                                        (py_int (of_int (default_height svg) * scale)))))"
      unfolding draw_svg_needle_def assms calibrated_def svg_height_def Let_def
      by (auto split: option.splits if_splits)
    then show ?thesis using hpos None by (simp add: py_truediv_def c_def ac_simps)
  next
    case (Some pct)
    then obtain tip w h where v: "desired_tip_radius_px g = Some tip" "gauge_bg_width g = Some w"
      "gauge_bg_height g = Some h" "tip \<noteq> 0" "gauge_display_scale g \<noteq> 0" "w \<noteq> 0" "h \<noteq> 0" "tip > 0"
      "pct = tip / (of_int (min w h) / 2)"
      by (auto simp: calibrated_def split: option.splits if_splits)
    have "min w h \<noteq> 0" using v(6,7) by (simp add: min_def)
    then have nz: "(of_int (min w h) / 2 :: real) \<noteq> 0" by simp
    have "draw_svg_needle g radius =
       (case py_truediv (radius * pct * needle_scale g) (of_int svg_height) of
          Inl e \<Rightarrow> Inl e
        | Inr scale \<Rightarrow> Inr (Some (SvgRect (py_int (of_int (default_width svg) * scale))
                                        (py_int (of_int (default_height svg) * scale)))))"
      unfolding draw_svg_needle_def assms svg_height_def Let_def v(1,2,3)
      using v(4-9) nz by (simp add: py_truediv_def)
    then show ?thesis using hpos Some by (simp add: py_truediv_def c_def ac_simps)
  qed
  then show ?thesis by blast
qed

lemma draw_svg_needle_returns: "\<exists>r. draw_svg_needle g radius = Inr r"
proof (cases "needle_svg g")
  case None
  then show ?thesis by (simp add: draw_svg_needle_def)
next
  case (Some svg)
  from draw_svg_needle_proportion[OF Some] show ?thesis by blast
qed

lemma rotate_and_draw_needle_returns: "\<exists>r. rotate_and_draw_needle g radius = Inr r"
proof (cases "is_svg_needle g \<and> needle_svg g \<noteq> None")
  case True
  then show ?thesis using draw_svg_needle_returns by (simp add: rotate_and_draw_needle_def)
next
  case False
  then show ?thesis
    by (auto simp: rotate_and_draw_needle_def Let_def py_truediv_def split: option.splits)
qed

lemma png_gauge_fields:
  "is_svg_needle png_gauge = False" "needle_pixmap png_gauge = Some (QPixmap False 40 400)"
  "needle_scale png_gauge = 1" "needle_length_px png_gauge = None"
  by (simp_all add: png_gauge_def ImageBasedGauge_init_def)

lemma svg_draw: "draw_svg_needle svg_gauge 540 = Inr (Some (SvgRect 48 486))"
  by (simp add: draw_svg_needle_def svg_gauge_def ImageBasedGauge_init_def py_truediv_def py_int_def Let_def)

section \<open>The claims\<close>

text \<open>
  C1, as amended. \<open>AngleCalculator.value_to_angle\<close> returns, for every calibration and
  every value, an angle r in the range 0 \<le> r \<le> 360. \<open>NeedleAngleCalculator.value_to_angle\<close>, on
  its value-sorted store, never raises and returns 0 for an empty store, the first point's
  stored angle as it is for a value at or below the first point's value, the last point's
  stored angle as it is for a value at or above the last point's value, and an angle
  r in the range 0 \<le> r \<le> 360 for every value strictly between. The stored end angles are not
  normalized: the speedometer preset returns -60 at 320 km/h, as its test expects.
\<close>

theorem value_to_angle_range_amended:
  assumes "sorted (map point_value pts)"
  shows "(\<exists>r. value_to_angle calc v = Some r \<and> 0 \<le> r \<and> r \<le> 360) \<and>
         (\<exists>r. needle_value_to_angle pts v = Inr r \<and>
            (if pts = [] then r = 0
             else if v \<le> point_value (hd pts) then r = point_angle (hd pts)
             else if point_value (last pts) \<le> v then r = point_angle (last pts)
             else 0 \<le> r \<and> r \<le> 360))"
proof (intro conjI)
  show "\<exists>r. value_to_angle calc v = Some r \<and> 0 \<le> r \<and> r \<le> 360"
    using value_to_angle_range[of calc v] by (auto intro: less_imp_le)
  show "\<exists>r. needle_value_to_angle pts v = Inr r \<and>
            (if pts = [] then r = 0
             else if v \<le> point_value (hd pts) then r = point_angle (hd pts)
             else if point_value (last pts) \<le> v then r = point_angle (last pts)
             else 0 \<le> r \<and> r \<le> 360)"
  proof (cases pts)
    case Nil
    then show ?thesis by (simp add: needle_value_to_angle_def)
  next
    case (Cons p ps)
    show ?thesis
    proof (cases "v \<le> point_value p \<or> point_value (last pts) \<le> v")
      case True
      then show ?thesis using Cons by (auto simp: needle_value_to_angle_def)
    next
      case False
      then have "point_value p < v" "v \<le> point_value (last (p # ps))" using Cons by auto
      from needle_find_bracket_inner[OF _ this] assms Cons
      obtain r where "needle_find_bracket (p # ps) v = Some (Inr r)" "0 \<le> r" "r < 360" by auto
      with False Cons show ?thesis by (auto simp: needle_value_to_angle_def)
    qed
  qed
qed

theorem value_to_angle_range_amended_witness:
  "sorted (map point_value speedometer_calibration) \<and>
   (\<exists>r. value_to_angle seam_calc 240 = Some r \<and> 0 \<le> r \<and> r \<le> 360) \<and>
   (\<exists>r. needle_value_to_angle speedometer_calibration 240 = Inr r \<and> 0 \<le> r \<and> r \<le> 360) \<and>
   needle_value_to_angle speedometer_calibration 0 = Inr 240"
proof -
  have h: "sorted (map point_value speedometer_calibration)"
    by (simp add: speedometer_points)
  show ?thesis
    using h value_to_angle_range_amended[OF h, of seam_calc 240]
      value_to_angle_range_amended[OF h, of seam_calc 0]
    by (simp add: speedometer_points)
qed

theorem speedometer_endpoint_counterexample:
  "needle_value_to_angle speedometer_calibration 320 = Inr (- 60) \<and>
   \<not> (0 \<le> (- 60 :: real) \<and> (- 60 :: real) \<le> 360)"
  by (simp add: speedometer_points needle_value_to_angle_def)


text \<open>
  C2, as amended. After the unwrap step of \<open>AngleCalculator.value_to_angle\<close>, which
  always finishes and keeps the number of angles, the difference between consecutive
  unwrapped bearings, unwrapped[i] - unwrapped[i-1], lies in the closed interval
  [-180, 180] for every i \<ge> 1. The lower end is attained: a difference of exactly -180 is
  left as it is, since the second loop runs only while the difference is below -180.
\<close>

theorem unwrap_invariant_closed_interval:
  "\<exists>us. unwrap_angles (point_angles calc) = Some us
     \<and> length us = length (calibration_points calc)
     \<and> (\<forall>i. 1 \<le> i \<and> i < length us \<longrightarrow>
           - 180 \<le> us ! i - us ! (i - 1) \<and> us ! i - us ! (i - 1) \<le> 180)"
proof -
  obtain us where us: "unwrap_angles (point_angles calc) = Some us"
    "length us = length (point_angles calc)"
    "\<forall>i. 1 \<le> i \<and> i < length us \<longrightarrow> \<bar>us ! i - us ! (i - 1)\<bar> \<le> 180"
    using unwrap_angles_returns[of "point_angles calc"] by blast
  have "length us = length (calibration_points calc)" using us(2) by (simp add: point_angles_def)
  moreover have "\<forall>i. 1 \<le> i \<and> i < length us \<longrightarrow>
           - 180 \<le> us ! i - us ! (i - 1) \<and> us ! i - us ! (i - 1) \<le> 180"
    using us(3) by (auto simp: abs_le_iff)
  ultimately show ?thesis using us(1) by blast
qed

theorem unwrap_invariant_closed_interval_witness:
  "unwrap_angles (point_angles seam_calc) = Some [180, 0]
   \<and> (1::nat) \<le> 1 \<and> (1::nat) < length [180, 0 :: real]
   \<and> - 180 \<le> [180, 0 :: real] ! 1 - [180, 0] ! (1 - 1)
   \<and> [180, 0 :: real] ! 1 - [180, 0] ! (1 - 1) \<le> 180"
proof -
  from unwrap_invariant_closed_interval[of seam_calc] obtain us where
    us: "unwrap_angles (point_angles seam_calc) = Some us"
    "\<forall>i. 1 \<le> i \<and> i < length us \<longrightarrow>
           - 180 \<le> us ! i - us ! (i - 1) \<and> us ! i - us ! (i - 1) \<le> 180"
    by blast
  from us(1) have eq: "us = [180, 0]" by (simp add: seam_calc_unwrapped)
  have "(1::nat) \<le> 1 \<and> (1::nat) < length us" by (simp add: eq)
  with us(2) have "- 180 \<le> us ! 1 - us ! (1 - 1) \<and> us ! 1 - us ! (1 - 1) \<le> 180" by blast
  then show ?thesis using us(1) unfolding eq by simp
qed

theorem unwrap_half_open_counterexample:
  "unwrap_angles (point_angles seam_calc) = Some [180, 0]
   \<and> \<not> (- 180 < [180, 0 :: real] ! 1 - [180, 0] ! (1 - 1))"
  by (simp add: seam_calc_unwrapped)

text \<open>
  C9. The loops of \<open>value_to_angle\<close> exit: each of the two while loops of the unwrap
  step returns for every bearing and predecessor, the unwrap step returns a list for every
  list of angles, and \<open>value_to_angle\<close> returns an angle for every calculator and value.
\<close>

theorem value_to_angle_terminates:
  "(\<exists>r. unwrap_down a prev = Some r) \<and> (\<exists>r. unwrap_up a prev = Some r)
   \<and> (\<exists>us. unwrap_angles angles = Some us \<and> length us = length angles)
   \<and> (\<exists>r. value_to_angle calc v = Some r)"
proof (intro conjI)
  show "\<exists>r. unwrap_down a prev = Some r" using unwrap_down_returns[of a prev] by blast
  show "\<exists>r. unwrap_up a prev = Some r" using unwrap_up_returns[of a prev] by blast
  show "\<exists>us. unwrap_angles angles = Some us \<and> length us = length angles"
    using unwrap_angles_returns[of angles] by blast
  show "\<exists>r. value_to_angle calc v = Some r" using value_to_angle_range[of calc v] by blast
qed

theorem value_to_angle_terminates_witness:
  "(\<exists>r. unwrap_down 7290 0 = Some r) \<and> (\<exists>r. unwrap_up (- 7290) 0 = Some r)
   \<and> (\<exists>us. unwrap_angles [180, 0] = Some us \<and> length us = length [180, 0 :: real])
   \<and> (\<exists>r. value_to_angle seam_calc (1 / 2) = Some r)"
  using value_to_angle_terminates[of 7290 0 "[180, 0]" seam_calc "1 / 2"]
    value_to_angle_terminates[of "- 7290" 0 "[180, 0]" seam_calc "1 / 2"]
  by blast

text \<open>
  C10. After \<open>add_point\<close>, after \<open>points_from_list\<close> (also when it stops at a
  malformed point), and after the constructor, \<open>add_point\<close> and \<open>set_points\<close> of the
  angle-based calculator, which all go through \<open>_validate_points\<close>, the stored points are
  sorted ascending by value.
\<close>

theorem calibration_store_sorted:
  "sorted (map value (calibration_points (add_point px py v calc)))
   \<and> sorted (map value (calibration_points (fst (points_from_list points calc))))
   \<and> sorted (map point_value (validate_points pts))
   \<and> sorted (map point_value (NeedleAngleCalculator_init opt))
   \<and> sorted (map point_value (needle_add_point v a pts))
   \<and> sorted (map point_value (set_points tuples))"
proof -
  have v: "sorted (map point_value (validate_points qs))" for qs
    by (simp add: validate_points_def)
  have "sorted (map value (calibration_points (fst (points_from_list points calc))))"
    unfolding points_from_list_def by (rule points_from_list_loop_sorted) simp
  then show ?thesis using v
    by (simp add: add_point_def NeedleAngleCalculator_init_def needle_add_point_def set_points_def)
qed

theorem calibration_store_sorted_witness:
  "calibration_points (add_point 0 1 50 seam_calc)
     = [\<lparr>x = - 1, y = 0, value = 0\<rparr>, \<lparr>x = 1, y = 0, value = 1\<rparr>, \<lparr>x = 0, y = 1, value = 50\<rparr>]
   \<and> sorted (map value (calibration_points (add_point 0 1 50 seam_calc)))
   \<and> set_points [(320, - 60), (0, 240), (160, 90)] = speedometer_calibration
   \<and> sorted (map point_value (set_points [(320, - 60), (0, 240), (160, 90)]))"
  using calibration_store_sorted[of 0 1 50 seam_calc "[]" "[]" None 0 "[(320, - 60), (0, 240), (160, 90)]"]
  by (simp add: add_point_def seam_calc_points speedometer_points set_points_def validate_points_def)





text \<open>
  C4, as amended. For a non-empty, value-sorted calibration set the first point carries
  the smallest value and the last the largest. \<open>AngleCalculator.value_to_angle\<close> of a
  value at or below the first value returns the first unwrapped bearing mod 360, which
  is the first point's bearing; of a value above the first value and at or above the last
  value it returns the last unwrapped bearing mod 360, which is the last point's bearing;
  with exactly one point every value maps to that point's bearing. The test against the
  first point comes first, so when all values are equal the first point wins.
  \<open>NeedleAngleCalculator.value_to_angle\<close> returns in the same two cases the stored angle
  of the first or last point as it is, not reduced mod 360. Neither raises an error and
  neither extrapolates.
\<close>

theorem value_to_angle_clamped:
  assumes "calibration_points calc \<noteq> []" "sorted (map value (calibration_points calc))"
    "pts \<noteq> []" "sorted (map point_value pts)"
  shows "(\<forall>p\<in>set (calibration_points calc).
            value (hd (calibration_points calc)) \<le> value p
            \<and> value p \<le> value (last (calibration_points calc)))
         \<and> (\<exists>us. unwrap_angles (point_angles calc) = Some us
               \<and> pymod (hd us) 360 = bearing calc (hd (calibration_points calc))
               \<and> pymod (last us) 360 = bearing calc (last (calibration_points calc))
               \<and> (v \<le> value (hd (calibration_points calc)) \<longrightarrow>
                     value_to_angle calc v = Some (pymod (hd us) 360))
               \<and> (value (hd (calibration_points calc)) < v
                     \<and> value (last (calibration_points calc)) \<le> v \<longrightarrow>
                     value_to_angle calc v = Some (pymod (last us) 360)))
         \<and> (length (calibration_points calc) = 1 \<longrightarrow>
               value_to_angle calc v = Some (bearing calc (hd (calibration_points calc))))
         \<and> (\<forall>q\<in>set pts. point_value (hd pts) \<le> point_value q
                           \<and> point_value q \<le> point_value (last pts))
         \<and> (v \<le> point_value (hd pts) \<longrightarrow>
               needle_value_to_angle pts v = Inr (point_angle (hd pts)))
         \<and> (point_value (hd pts) < v \<and> point_value (last pts) \<le> v \<longrightarrow>
               needle_value_to_angle pts v = Inr (point_angle (last pts)))"
proof (intro conjI)
  let ?ps = "calibration_points calc"
  show "\<forall>p\<in>set ?ps. value (hd ?ps) \<le> value p \<and> value p \<le> value (last ?ps)"
    using sorted_hd_last[OF assms(2)] by blast
  show "\<forall>q\<in>set pts. point_value (hd pts) \<le> point_value q \<and> point_value q \<le> point_value (last pts)"
    using sorted_hd_last[OF assms(4)] by blast
  show "v \<le> point_value (hd pts) \<longrightarrow> needle_value_to_angle pts v = Inr (point_angle (hd pts))"
    using assms(3) by (simp add: needle_value_to_angle_def)
  show "point_value (hd pts) < v \<and> point_value (last pts) \<le> v \<longrightarrow>
          needle_value_to_angle pts v = Inr (point_angle (last pts))"
    using assms(3) by (simp add: needle_value_to_angle_def)
  obtain us where us: "unwrap_angles (point_angles calc) = Some us"
    using unwrap_angles_returns by blast
  have len: "length us = length ?ps" using unwrapped_bearing(1)[OF us] .
  with assms(1) have ne: "us \<noteq> []" by auto
  have "hd us = bearing calc (hd ?ps)" using unwrapped_bearing(3)[OF us assms(1)] .
  then have first: "pymod (hd us) 360 = bearing calc (hd ?ps)"
    using bearing_range by (simp add: pymod_id)
  have "pymod (last us) 360 = pymod (us ! (length us - 1)) 360" using ne by (simp add: last_conv_nth)
  also have "\<dots> = bearing calc (?ps ! (length us - 1))"
    using unwrapped_bearing(2)[OF us, of "length us - 1"] ne by simp
  also have "\<dots> = bearing calc (last ?ps)" using assms(1) len by (simp add: last_conv_nth)
  finally have final: "pymod (last us) 360 = bearing calc (last ?ps)" .
  have low: "v \<le> value (hd ?ps) \<longrightarrow> value_to_angle calc v = Some (pymod (hd us) 360)"
    using value_to_angle_low[OF assms(1)] first by simp
  have high: "value (hd ?ps) < v \<and> value (last ?ps) \<le> v \<longrightarrow>
                 value_to_angle calc v = Some (pymod (last us) 360)"
    using value_to_angle_high[OF assms(1)] final by simp
  show "\<exists>us. unwrap_angles (point_angles calc) = Some us
               \<and> pymod (hd us) 360 = bearing calc (hd ?ps)
               \<and> pymod (last us) 360 = bearing calc (last ?ps)
               \<and> (v \<le> value (hd ?ps) \<longrightarrow> value_to_angle calc v = Some (pymod (hd us) 360))
               \<and> (value (hd ?ps) < v \<and> value (last ?ps) \<le> v \<longrightarrow>
                     value_to_angle calc v = Some (pymod (last us) 360))"
    using us first final low high by blast
  show "length ?ps = 1 \<longrightarrow> value_to_angle calc v = Some (bearing calc (hd ?ps))"
  proof
    assume one: "length ?ps = 1"
    then obtain p where p: "?ps = [p]" by (cases ?ps) auto
    show "value_to_angle calc v = Some (bearing calc (hd ?ps))"
    proof (cases "v \<le> value (hd ?ps)")
      case True
      then show ?thesis using value_to_angle_low[OF assms(1)] by simp
    next
      case False
      then have "value (hd ?ps) < v" "value (last ?ps) \<le> v" using p by auto
      from value_to_angle_high[OF assms(1) this] show ?thesis using p by simp
    qed
  qed
qed

theorem value_to_angle_clamped_witness:
  "calibration_points seam_calc \<noteq> [] \<and> sorted (map value (calibration_points seam_calc))
   \<and> speedometer_calibration \<noteq> [] \<and> sorted (map point_value speedometer_calibration)
   \<and> value_to_angle seam_calc (- 5) = Some 180
   \<and> value_to_angle seam_calc 5 = Some 0
   \<and> length (calibration_points single_calc) = 1
   \<and> value_to_angle single_calc 5000 = Some 270
   \<and> needle_value_to_angle speedometer_calibration (- 5) = Inr 240
   \<and> needle_value_to_angle speedometer_calibration 500 = Inr (- 60)"
proof -
  have h1: "calibration_points seam_calc \<noteq> []" and h2: "sorted (map value (calibration_points seam_calc))"
    by (simp_all add: seam_calc_points)
  have h3: "speedometer_calibration \<noteq> []" and h4: "sorted (map point_value speedometer_calibration)"
    by (simp_all add: speedometer_points)
  have h5: "calibration_points single_calc \<noteq> []" and h6: "sorted (map value (calibration_points single_calc))"
    and h7: "length (calibration_points single_calc) = 1"
    by (simp_all add: single_calc_points)
  have a: "value_to_angle seam_calc (- 5) = Some 180"
     "needle_value_to_angle speedometer_calibration (- 5) = Inr 240"
    using value_to_angle_clamped[OF h1 h2 h3 h4, of "- 5"]
    by (auto simp: seam_calc_points speedometer_points bearing_left)
  have b: "value_to_angle seam_calc 5 = Some 0"
    using value_to_angle_clamped[OF h1 h2 h3 h4, of 5]
    by (auto simp: seam_calc_points speedometer_points bearing_right)
  have c: "value_to_angle single_calc 5000 = Some 270"
    using value_to_angle_clamped[OF h5 h6 h3 h4, of 5000] h7
    by (simp add: single_calc_points bearing_up)
  have d: "needle_value_to_angle speedometer_calibration 500 = Inr (- 60)"
    using value_to_angle_clamped[OF h1 h2 h3 h4, of 500]
    by (auto simp: seam_calc_points speedometer_points)
  show ?thesis using h1 h2 h3 h4 h7 a b c d by blast
qed

theorem clamp_at_shared_value_counterexample:
  "calibration_points flat_calc \<noteq> []
   \<and> value (last (calibration_points flat_calc)) \<le> 7
   \<and> value_to_angle flat_calc 7 = Some 0
   \<and> pymod (bearing flat_calc (last (calibration_points flat_calc))) 360 = 90
   \<and> point_value (last speedometer_calibration) \<le> 400
   \<and> needle_value_to_angle speedometer_calibration 400 = Inr (- 60)
   \<and> pymod (point_angle (last speedometer_calibration)) 360 = 300"
  by (simp add: flat_calc_points flat_calc_value bearing_down pymod_small speedometer_points
      needle_value_to_angle_def)


text \<open>
  C5. A named needle whose value v was set with \<open>set_named_needle_value\<close> and lies in
  the assumed domain [0, 100] is drawn at the angle 270 - 180 * (v / 100): the value 0 at
  270 degrees, 50 at 180 degrees and 100 at 90 degrees.
\<close>

theorem named_needle_fallback_angle:
  assumes "0 \<le> v" "v \<le> 100"
  shows "map_option named_needle_angle (named_needles (set_named_needle_value name v g) name)
           = Some (270 - 180 * (v / 100))"
  using assms
  by (cases "named_needles g name")
     (auto simp: set_named_needle_value_def named_needle_angle_def dict_get_def Let_def)

theorem named_needle_fallback_angle_witness:
  "(0::real) \<le> 50 \<and> (50::real) \<le> 100
   \<and> map_option named_needle_angle
         (named_needles (set_named_needle_value ''oil'' 0 png_gauge) ''oil'') = Some 270
   \<and> map_option named_needle_angle
         (named_needles (set_named_needle_value ''oil'' 50 png_gauge) ''oil'') = Some 180
   \<and> map_option named_needle_angle
         (named_needles (set_named_needle_value ''oil'' 100 png_gauge) ''oil'') = Some 90"
  using named_needle_fallback_angle[of 0 "''oil''" png_gauge]
    named_needle_fallback_angle[of 50 "''oil''" png_gauge]
    named_needle_fallback_angle[of 100 "''oil''" png_gauge]
  by simp

text \<open>
  C8. The call of \<open>set_named_needle_scale\<close> that creates a needle stores the scale as
  given: on a gauge without the needle, the scale 5 is stored and read back as 5, outside
  [0.5, 2.0]. The same call on an existing needle stores the clamped scale 2.
\<close>

theorem set_named_needle_scale_creates_unclamped:
  "named_needles png_gauge ''boost'' = None
   \<and> get_named_needle_scale ''boost'' (set_named_needle_scale ''boost'' 5 png_gauge) = Inr 5
   \<and> get_named_needle_scale ''boost''
         (set_named_needle_scale ''boost'' 5 (set_named_needle_scale ''boost'' 1 png_gauge)) = Inr 2"
  by (simp add: png_gauge_named_needles set_named_needle_scale_def get_named_needle_scale_def)


text \<open>
  C6. After \<open>load_v2_calibration\<close> has loaded a calibration with at least one
  calibration point, the desired tip radius is the arithmetic mean of the Euclidean
  distances from the gauge pivot to each calibration point; after
  \<open>load_dual_v2_calibration\<close> has loaded the water calibration, so is the water tip
  radius. Every point of a loaded calibration has its x and y, so the defaults of the
  distance computation are not used.
\<close>

theorem tip_radius_is_mean:
  "(load_v2_calibration calibration_data needle_id g = (True, g')
      \<and> calibration_data needle_id = Some cal \<and> cal_points cal = Some points \<and> points \<noteq> []
    \<longrightarrow> desired_tip_radius_px g' =
          Some ((\<Sum>point\<leftarrow>points.
                   sqrt ((dict_get point ''x'' 0 - dict_get (cal_numbers cal) ''gauge_pivot_x'' 0)\<^sup>2
                       + (dict_get point ''y'' 0 - dict_get (cal_numbers cal) ''gauge_pivot_y'' 0)\<^sup>2))
                / real (length points))
        \<and> (\<forall>point\<in>set points. point ''x'' \<noteq> None \<and> point ''y'' \<noteq> None))
   \<and> (load_dual_v2_calibration dual_data water_file fg = Inr fg'
      \<and> dual_data ''water'' = Some water_cal
      \<and> cal_points water_cal = Some wpoints \<and> wpoints \<noteq> []
    \<longrightarrow> water_tip_radius_px fg' =
          Some ((\<Sum>point\<leftarrow>wpoints.
                   sqrt ((dict_get point ''x'' 0 - dict_get (cal_numbers water_cal) ''gauge_pivot_x'' 0)\<^sup>2
                       + (dict_get point ''y'' 0 - dict_get (cal_numbers water_cal) ''gauge_pivot_y'' 0)\<^sup>2))
                / real (length wpoints))
        \<and> (\<forall>point\<in>set wpoints. point ''x'' \<noteq> None \<and> point ''y'' \<noteq> None))"
proof (intro conjI impI; elim conjE)
  assume a: "load_v2_calibration calibration_data needle_id g = (True, g')"
    "calibration_data needle_id = Some cal" "cal_points cal = Some points" "points \<noteq> []"
  define gx where "gx = dict_get (cal_numbers cal) ''gauge_pivot_x'' 0"
  define gy where "gy = dict_get (cal_numbers cal) ''gauge_pivot_y'' 0"
  define loaded where "loaded = points_from_list points (AngleCalculator_init gx gy)"
  define g2 where "g2 = g\<lparr>angle_calculator := Some (fst loaded),
                         calibration_points_px := points, gauge_pivot_px := Some (gx, gy)\<rparr>"
  have unfolded: "load_v2_calibration calibration_data needle_id g =
      (if snd loaded \<noteq> None then (False, g\<lparr>angle_calculator := Some (fst loaded)\<rparr>)
       else (True, load_needle_scale cal (load_tip_radius gx gy points
               (load_center_offset gx gy (load_needle_geometry cal g2)))))"
    by (simp add: load_v2_calibration_def a(2) a(3) gx_def gy_def loaded_def g2_def Let_def)
  with a(1) have ok: "snd loaded = None" and g': "g' = load_needle_scale cal
      (load_tip_radius gx gy points (load_center_offset gx gy (load_needle_geometry cal g2)))"
    by (auto split: if_splits)
  have "gauge_pivot_px (load_center_offset gx gy (load_needle_geometry cal g2)) \<noteq> None"
    by (simp add: load_center_offset_keeps load_needle_geometry_keeps g2_def)
  from load_tip_radius_mean[OF this a(4)]
  show "desired_tip_radius_px g' =
          Some ((\<Sum>point\<leftarrow>points.
                   sqrt ((dict_get point ''x'' 0 - dict_get (cal_numbers cal) ''gauge_pivot_x'' 0)\<^sup>2
                       + (dict_get point ''y'' 0 - dict_get (cal_numbers cal) ''gauge_pivot_y'' 0)\<^sup>2))
                / real (length points))"
    unfolding g' load_needle_scale_keeps gx_def gy_def .
  show "\<forall>point\<in>set points. point ''x'' \<noteq> None \<and> point ''y'' \<noteq> None"
    using points_from_list_loop_keys[of points] ok
    unfolding loaded_def points_from_list_def by blast
next
  assume d: "load_dual_v2_calibration dual_data water_file fg = Inr fg'"
    "dual_data ''water'' = Some water_cal"
  assume b: "cal_points water_cal = Some wpoints" "wpoints \<noteq> []"
  from d obtain fg1 where "load_water_calibration water_cal water_file fg1 = Inr fg'"
    by (simp add: load_dual_v2_calibration_def Let_def)
  note a = this b
  define gx where "gx = dict_get (cal_numbers water_cal) ''gauge_pivot_x'' 0"
  define gy where "gy = dict_get (cal_numbers water_cal) ''gauge_pivot_y'' 0"
  define loaded where "loaded = points_from_list wpoints (AngleCalculator_init gx gy)"
  from a(1) have ok: "snd loaded = None"
    by (auto simp: load_water_calibration_def a(2) gx_def gy_def loaded_def Let_def
        split: option.splits)
  from a(1) obtain g3 where "fg' = water_tip_radius gx gy wpoints (water_center_offset gx gy g3)"
    by (auto simp: load_water_calibration_def a(2) gx_def gy_def loaded_def Let_def
        split: option.splits sum.splits)
  then show "water_tip_radius_px fg' =
          Some ((\<Sum>point\<leftarrow>wpoints.
                   sqrt ((dict_get point ''x'' 0 - dict_get (cal_numbers water_cal) ''gauge_pivot_x'' 0)\<^sup>2
                       + (dict_get point ''y'' 0 - dict_get (cal_numbers water_cal) ''gauge_pivot_y'' 0)\<^sup>2))
                / real (length wpoints))"
    using water_tip_radius_mean[OF a(3)] by (simp add: gx_def gy_def)
  show "\<forall>point\<in>set wpoints. point ''x'' \<noteq> None \<and> point ''y'' \<noteq> None"
    using points_from_list_loop_keys[of wpoints] ok
    unfolding loaded_def points_from_list_def by blast
qed

theorem tip_radius_is_mean_witness:
  "fst (load_v2_calibration two_point_config ''main'' png_gauge)
   \<and> desired_tip_radius_px (snd (load_v2_calibration two_point_config ''main'' png_gauge)) = Some 4
   \<and> (\<exists>fg'. load_dual_v2_calibration two_point_config NoFile fuel_gauge = Inr fg'
         \<and> water_tip_radius_px fg' = Some 4)"
proof -
  let ?pts = "[[''x'' \<mapsto> 3, ''y'' \<mapsto> 0, ''value'' \<mapsto> 0], [''x'' \<mapsto> 0, ''y'' \<mapsto> 5, ''value'' \<mapsto> (100::real)]]"
  have h1: "load_v2_calibration two_point_config ''main'' png_gauge
              = (True, snd (load_v2_calibration two_point_config ''main'' png_gauge))"
    using two_point_main_loads by (simp add: prod_eq_iff)
  have h2: "two_point_config ''main'' = Some two_point_cal" "two_point_config ''water'' = Some two_point_cal"
    by (simp_all add: two_point_config_def)
  have h3: "cal_points two_point_cal = Some ?pts" and h4: "?pts \<noteq> []"
    by (simp_all add: two_point_cal_def)
  obtain fg' where h5: "load_dual_v2_calibration two_point_config NoFile fuel_gauge = Inr fg'"
    using two_point_water_loads by blast
  have num: "dict_get (cal_numbers two_point_cal) ''gauge_pivot_x'' 0 = 0"
    "dict_get (cal_numbers two_point_cal) ''gauge_pivot_y'' 0 = 0"
    by (simp_all add: two_point_cal_def dict_get_def)
  have pt: "dict_get [''x'' \<mapsto> 3, ''y'' \<mapsto> 0, ''value'' \<mapsto> 0] ''x'' 0 = 3"
    "dict_get [''x'' \<mapsto> 3, ''y'' \<mapsto> 0, ''value'' \<mapsto> 0] ''y'' 0 = 0"
    "dict_get [''x'' \<mapsto> 0, ''y'' \<mapsto> 5, ''value'' \<mapsto> 100] ''x'' 0 = 0"
    "dict_get [''x'' \<mapsto> 0, ''y'' \<mapsto> 5, ''value'' \<mapsto> 100] ''y'' 0 = 5"
    by (simp_all add: dict_get_def)
  note t = tip_radius_is_mean[of two_point_config "''main''" png_gauge
      "snd (load_v2_calibration two_point_config ''main'' png_gauge)" two_point_cal ?pts
      two_point_config NoFile fuel_gauge fg' two_point_cal ?pts]
  from t h1 h2 h3 h4 h5
  have "desired_tip_radius_px (snd (load_v2_calibration two_point_config ''main'' png_gauge)) = Some 4"
    and "water_tip_radius_px fg' = Some 4"
    by (simp_all add: num pt)
  with two_point_main_loads h5 show ?thesis by blast
qed


text \<open>
  C7. Drawing a needle never divides by zero: \<open>_rotate_and_draw_needle\<close> and
  \<open>_draw_svg_needle\<close> return without a ZeroDivisionError in every state and for every
  radius. When a PNG needle's calibrated length is zero or absent, the division by the
  length is skipped and the needle is scaled to the height int(radius * 1.5 * needle_scale).
  An SVG needle is sized without reference to the calibrated length: its rectangle is the
  default size times radius * c, for a factor c that does not depend on the radius.
\<close>

theorem needle_scale_never_divides_by_zero:
  "(\<exists>r. rotate_and_draw_needle g radius = Inr r)
   \<and> (\<exists>r. draw_svg_needle g radius = Inr r)
   \<and> (\<not> (is_svg_needle g \<and> needle_svg g \<noteq> None) \<and> needle_pixmap g = Some pm \<and> \<not> isNull pm
        \<and> (needle_length_px g = None \<or> needle_length_px g = Some 0)
      \<longrightarrow> rotate_and_draw_needle g radius
            = Inr (Some (ScaledToHeight (py_int (radius * 1.5 * needle_scale g)))))
   \<and> (needle_svg g = Some svg
      \<longrightarrow> (\<exists>c. \<forall>len radius'. draw_svg_needle (g\<lparr>needle_length_px := len\<rparr>) radius'
               = Inr (Some (SvgRect (py_int (of_int (default_width svg) * (radius' * c)))
                                    (py_int (of_int (default_height svg) * (radius' * c)))))))"
proof (intro conjI impI)
  show "\<exists>r. rotate_and_draw_needle g radius = Inr r" by (rule rotate_and_draw_needle_returns)
  show "\<exists>r. draw_svg_needle g radius = Inr r" by (rule draw_svg_needle_returns)
  show "rotate_and_draw_needle g radius
            = Inr (Some (ScaledToHeight (py_int (radius * 1.5 * needle_scale g))))"
    if "\<not> (is_svg_needle g \<and> needle_svg g \<noteq> None) \<and> needle_pixmap g = Some pm \<and> \<not> isNull pm
        \<and> (needle_length_px g = None \<or> needle_length_px g = Some 0)"
    using that rotate_pixmap_fallback[of g pm radius] by blast
  show "\<exists>c. \<forall>len radius'. draw_svg_needle (g\<lparr>needle_length_px := len\<rparr>) radius'
               = Inr (Some (SvgRect (py_int (of_int (default_width svg) * (radius' * c)))
                                    (py_int (of_int (default_height svg) * (radius' * c)))))"
    if s: "needle_svg g = Some svg"
  proof -
    have same: "draw_svg_needle (g\<lparr>needle_length_px := len\<rparr>) r = draw_svg_needle g r" for len r
      by (simp add: draw_svg_needle_def Let_def cong: option.case_cong prod.case_cong sum.case_cong if_cong)
    from draw_svg_needle_proportion[OF s] show ?thesis unfolding same by blast
  qed
qed

theorem needle_scale_never_divides_by_zero_witness:
  "needle_pixmap (png_gauge\<lparr>needle_length_px := Some 0, desired_tip_radius_px := Some 400\<rparr>)
     = Some (QPixmap False 40 400)
   \<and> needle_length_px (png_gauge\<lparr>needle_length_px := Some 0, desired_tip_radius_px := Some 400\<rparr>) = Some 0
   \<and> rotate_and_draw_needle (png_gauge\<lparr>needle_length_px := Some 0, desired_tip_radius_px := Some 400\<rparr>) 540
       = Inr (Some (ScaledToHeight 810))
   \<and> rotate_and_draw_needle png_gauge 540 = Inr (Some (ScaledToHeight 810))
   \<and> needle_svg svg_gauge = Some (QSvgRenderer 40 400)
   \<and> draw_svg_needle svg_gauge 540 = Inr (Some (SvgRect 48 486))"
proof -
  let ?g = "png_gauge\<lparr>needle_length_px := Some 0, desired_tip_radius_px := Some 400\<rparr>"
  have a: "rotate_and_draw_needle ?g 540 = Inr (Some (ScaledToHeight 810))"
    using needle_scale_never_divides_by_zero[of ?g 540 "QPixmap False 40 400"]
    by (simp add: png_gauge_fields py_int_def)
  have b: "rotate_and_draw_needle png_gauge 540 = Inr (Some (ScaledToHeight 810))"
    using needle_scale_never_divides_by_zero[of png_gauge 540 "QPixmap False 40 400"]
    by (simp add: png_gauge_fields py_int_def)
  have c: "needle_svg svg_gauge = Some (QSvgRenderer 40 400)"
    by (simp add: svg_gauge_def ImageBasedGauge_init_def)
  from needle_scale_never_divides_by_zero[of svg_gauge 540 _ "QSvgRenderer 40 400"] c
  obtain k where k: "\<forall>len radius'. draw_svg_needle (svg_gauge\<lparr>needle_length_px := len\<rparr>) radius'
        = Inr (Some (SvgRect (py_int (of_int (default_width (QSvgRenderer 40 400)) * (radius' * k)))
                             (py_int (of_int (default_height (QSvgRenderer 40 400)) * (radius' * k)))))"
    by blast
  show ?thesis using a b c svg_draw by (simp add: png_gauge_fields)
qed

end
